theory Spec2Isabelle
  imports Main "HOL-Library.Word"
begin

unbundle bit_operations_syntax

section \<open>Machine integers and byte order\<close>

text \<open>
  The C sources keep every multi-byte header field in network byte order and convert with
  \<open>htons\<close>, \<open>ntohs\<close>, \<open>htonl\<close> and \<open>ntohl\<close> where they compare against constants.
  The embedding stores the numeric value a field has on the wire (its big-endian reading), so
  the four conversions are the identity.  Sizes of type \<open>size_t\<close> and time stamps of type
  \<open>time_t\<close> are unbounded here (\<open>nat\<close> and \<open>int\<close>); fixed-width fields are words.

  Two functions, \<open>modify_nh\<close> and \<open>modify_th\<close>, load fields and do arithmetic on them
  without converting.  For them the byte order of the host is a parameter: \<open>host16 h w\<close> is
  the value a C load yields, on a host of byte order \<open>h\<close>, for a 16-bit field whose value on
  the wire is \<open>w\<close>, and also the value on the wire of a field into which the host value
  \<open>w\<close> is stored (swapping the bytes is its own inverse); \<open>host32\<close> likewise.
\<close>

type_synonym u8 = "8 word"
type_synonym u16 = "16 word"
type_synonym u32 = "32 word"

text \<open>
  The kernel keeps time in \<open>jiffies\<close>, an \<open>unsigned long\<close>: 64 bits on the LP64 targets of
  the kernel.  \<open>time_after(a, b)\<close> is a macro of the kernel's jiffies.h, which is not among
  the sources: \<open>((long)(b) - (long)(a) < 0)\<close>, true when \<open>a\<close> is later than \<open>b\<close> on the
  wrapping counter.
\<close>

type_synonym ulong = "64 word"

definition time_after :: "ulong \<Rightarrow> ulong \<Rightarrow> bool" where
  "time_after a b = (sint (b - a) < 0)"

datatype byte_order = Big_endian | Little_endian

definition host16 :: "byte_order \<Rightarrow> u16 \<Rightarrow> u16" where
  "host16 h w = (case h of Big_endian \<Rightarrow> w | Little_endian \<Rightarrow> push_bit 8 w OR drop_bit 8 w)"

definition host32 :: "byte_order \<Rightarrow> u32 \<Rightarrow> u32" where
  "host32 h w =
    (case h of
       Big_endian \<Rightarrow> w
     | Little_endian \<Rightarrow>
         push_bit 24 w OR push_bit 8 (w AND 0xFF00) OR (drop_bit 8 w AND 0xFF00) OR drop_bit 24 w)"

section \<open>Flow keys and the match predicates\<close>

text \<open>
  \<open>struct flow\<close> and \<open>struct sw_flow_key\<close>.  The kernel datapath (datapath/flow.c) keeps
  the ten header fields, the wildcard word and the two derived IPv4 masks in one flat
  structure; the user-space switch (switch/switch-flow.c) nests the header fields in
  \<open>flow\<close>.  Both have the same fields, so one record serves both.  A MAC address is
  the array of its six bytes.
\<close>

record flow =
  in_port :: u16
  dl_vlan :: u16
  dl_src :: "u8 list"
  dl_dst :: "u8 list"
  dl_type :: u16
  nw_src :: u32
  nw_dst :: u32
  nw_proto :: u8
  tp_src :: u16
  tp_dst :: u16

record sw_flow_key =
  flow :: flow
  wildcards :: u32
  nw_src_mask :: u32
  nw_dst_mask :: u32

text \<open>
  The \<open>OFPFW_*\<close> wildcard bits come from openflow.h, which is not among the sources.
  They are a parameter of the match predicates.
\<close>

record ofp_flow_wildcards =
  OFPFW_IN_PORT :: u32
  OFPFW_DL_VLAN :: u32
  OFPFW_DL_SRC :: u32
  OFPFW_DL_DST :: u32
  OFPFW_DL_TYPE :: u32
  OFPFW_NW_PROTO :: u32
  OFPFW_TP_SRC :: u32
  OFPFW_TP_DST :: u32

text \<open>
  \<open>flow_fields_match\<close> of datapath/flow.c: the wildcard argument \<open>w\<close> is a
  \<open>uint32_t\<close>.  The C function returns the \<open>int\<close> value of a chain of \<open>&&\<close>, which is
  1 or 0; the embedding returns the truth value.
\<close>

definition flow_fields_match ::
  "ofp_flow_wildcards \<Rightarrow> flow \<Rightarrow> flow \<Rightarrow> u32 \<Rightarrow> u32 \<Rightarrow> u32 \<Rightarrow> bool" where
  "flow_fields_match W a b w src_mask dst_mask =
    ((w AND OFPFW_IN_PORT W \<noteq> 0 \<or> in_port a = in_port b)
     \<and> (w AND OFPFW_DL_VLAN W \<noteq> 0 \<or> dl_vlan a = dl_vlan b)
     \<and> (w AND OFPFW_DL_SRC W \<noteq> 0 \<or> dl_src a = dl_src b)
     \<and> (w AND OFPFW_DL_DST W \<noteq> 0 \<or> dl_dst a = dl_dst b)
     \<and> (w AND OFPFW_DL_TYPE W \<noteq> 0 \<or> dl_type a = dl_type b)
     \<and> (nw_src a XOR nw_src b) AND src_mask = 0
     \<and> (nw_dst a XOR nw_dst b) AND dst_mask = 0
     \<and> (w AND OFPFW_NW_PROTO W \<noteq> 0 \<or> nw_proto a = nw_proto b)
     \<and> (w AND OFPFW_TP_SRC W \<noteq> 0 \<or> tp_src a = tp_src b)
     \<and> (w AND OFPFW_TP_DST W \<noteq> 0 \<or> tp_dst a = tp_dst b))"

text \<open>
  \<open>flow_fields_match\<close> of switch/switch-flow.c: the same body, but the parameter \<open>w\<close>
  is declared \<open>uint16_t\<close>, so the caller's 32-bit wildcard word is truncated to its low 16
  bits on the way in and widened again for each \<open>&\<close>.
\<close>

definition switch_flow_fields_match ::
  "ofp_flow_wildcards \<Rightarrow> flow \<Rightarrow> flow \<Rightarrow> u32 \<Rightarrow> u32 \<Rightarrow> u32 \<Rightarrow> bool" where
  "switch_flow_fields_match W a b w src_mask dst_mask =
    flow_fields_match W a b (ucast (ucast w :: u16)) src_mask dst_mask"

definition flow_matches_1wild :: "ofp_flow_wildcards \<Rightarrow> sw_flow_key \<Rightarrow> sw_flow_key \<Rightarrow> bool" where
  "flow_matches_1wild W a b =
    flow_fields_match W (flow a) (flow b) (wildcards b) (nw_src_mask b) (nw_dst_mask b)"

definition flow_matches_2wild :: "ofp_flow_wildcards \<Rightarrow> sw_flow_key \<Rightarrow> sw_flow_key \<Rightarrow> bool" where
  "flow_matches_2wild W a b =
    flow_fields_match W (flow a) (flow b) (wildcards a OR wildcards b)
      (nw_src_mask a AND nw_src_mask b) (nw_dst_mask a AND nw_dst_mask b)"

definition switch_flow_matches_2wild ::
  "ofp_flow_wildcards \<Rightarrow> sw_flow_key \<Rightarrow> sw_flow_key \<Rightarrow> bool" where
  "switch_flow_matches_2wild W a b =
    switch_flow_fields_match W (flow a) (flow b) (wildcards a OR wildcards b)
      (nw_src_mask a AND nw_src_mask b) (nw_dst_mask a AND nw_dst_mask b)"

section \<open>The buffer cache\<close>

text \<open>
  \<open>struct packet_buffer\<close>, the static array \<open>buffers[N_PKT_BUFFERS]\<close> and the static
  \<open>buffer_idx\<close> of switch/datapath.c (and, with \<open>skb\<close> for \<open>buffer\<close>, of
  datapath/forward.c).  A null packet pointer is \<open>None\<close>.  The array is indexed by numbers
  below 256 only, since every index is masked with \<open>PKT_BUFFER_MASK\<close>.
\<close>

definition PKT_BUFFER_BITS :: nat where
  "PKT_BUFFER_BITS = 8"

definition N_PKT_BUFFERS :: u32 where
  "N_PKT_BUFFERS = push_bit PKT_BUFFER_BITS 1"

definition PKT_BUFFER_MASK :: u32 where
  "PKT_BUFFER_MASK = N_PKT_BUFFERS - 1"

definition PKT_COOKIE_BITS :: nat where
  "PKT_COOKIE_BITS = 32 - PKT_BUFFER_BITS"

definition OVERWRITE_SECS :: int where
  "OVERWRITE_SECS = 1"

definition UINT32_MAX :: u32 where
  "UINT32_MAX = - 1"

record 'p packet_buffer =
  buffer :: "'p option"
  cookie :: u32
  timeout :: int

record 'p buffer_cache =
  buffers :: "u32 \<Rightarrow> 'p packet_buffer"
  buffer_idx :: u32

text \<open>C zero-initialises static storage.\<close>

definition buffer_cache_init :: "'p buffer_cache" where
  "buffer_cache_init =
    \<lparr>buffers = (\<lambda>_. \<lparr>buffer = None, cookie = 0, timeout = 0\<rparr>), buffer_idx = 0\<rparr>"

text \<open>
  \<open>save_buffer\<close> (switch/datapath.c).  \<open>now\<close> is the value of \<open>time(0)\<close>.  The result is
  the new cache and the buffer id; the failure value \<open>-1\<close> of the C function is
  \<open>UINT32_MAX\<close> in its return type \<open>uint32_t\<close>.  The slot keeps a clone of the packet,
  which as a value is the packet.
\<close>

definition save_buffer :: "int \<Rightarrow> 'p buffer_cache \<Rightarrow> 'p \<Rightarrow> 'p buffer_cache \<times> u32" where
  "save_buffer now st b =
    (let idx = (buffer_idx st + 1) AND PKT_BUFFER_MASK;
         st1 = st\<lparr>buffer_idx := idx\<rparr>;
         p = buffers st idx
     in if buffer p \<noteq> None \<and> now < timeout p then (st1, UINT32_MAX)
        else
          let c = cookie p + 1;
              c' = (if c \<ge> push_bit PKT_COOKIE_BITS 1 - 1 then 0 else c);
              p' = \<lparr>buffer = Some b, cookie = c', timeout = now + OVERWRITE_SECS\<rparr>
          in (st1\<lparr>buffers := (buffers st)(idx := p')\<rparr>, idx OR push_bit PKT_BUFFER_BITS c'))"

definition retrieve_buffer :: "'p buffer_cache \<Rightarrow> u32 \<Rightarrow> 'p buffer_cache \<times> 'p option" where
  "retrieve_buffer st id' =
    (let i = id' AND PKT_BUFFER_MASK; p = buffers st i
     in if cookie p = drop_bit PKT_BUFFER_BITS id'
        then (st\<lparr>buffers := (buffers st)(i := p\<lparr>buffer := None\<rparr>)\<rparr>, buffer p)
        else (st, None))"

definition discard_buffer :: "'p buffer_cache \<Rightarrow> u32 \<Rightarrow> 'p buffer_cache" where
  "discard_buffer st id' =
    (let i = id' AND PKT_BUFFER_MASK; p = buffers st i
     in if cookie p = drop_bit PKT_BUFFER_BITS id'
        then st\<lparr>buffers := (buffers st)(i := p\<lparr>buffer := None\<rparr>)\<rparr>
        else st)"

text \<open>\<open>retrieve_skb\<close> (datapath/forward.c): the same steps under the buffer lock.\<close>

definition retrieve_skb :: "'p buffer_cache \<Rightarrow> u32 \<Rightarrow> 'p buffer_cache \<times> 'p option" where
  "retrieve_skb st id' =
    (let i = id' AND PKT_BUFFER_MASK; p = buffers st i
     in if cookie p = drop_bit PKT_BUFFER_BITS id'
        then (st\<lparr>buffers := (buffers st)(i := p\<lparr>buffer := None\<rparr>)\<rparr>, buffer p)
        else (st, None))"

text \<open>
  A driver for sequences of calls on the cache, used to say "with no intervening save to that
  slot": \<open>cache_step\<close> performs one call and keeps the cache, \<open>no_save_to s st ops\<close> holds
  when no \<open>save_buffer\<close> call of \<open>ops\<close>, run from \<open>st\<close>, advances the ring index to
  slot \<open>s\<close>.
\<close>

datatype 'p cache_op = Save int 'p | Retrieve u32 | Discard u32

fun cache_step :: "'p buffer_cache \<Rightarrow> 'p cache_op \<Rightarrow> 'p buffer_cache" where
  "cache_step st (Save now b) = fst (save_buffer now st b)"
| "cache_step st (Retrieve i) = fst (retrieve_buffer st i)"
| "cache_step st (Discard i) = discard_buffer st i"

fun no_save_to :: "u32 \<Rightarrow> 'p buffer_cache \<Rightarrow> 'p cache_op list \<Rightarrow> bool" where
  "no_save_to s st [] = True"
| "no_save_to s st (Save now b # ops) =
     ((buffer_idx st + 1) AND PKT_BUFFER_MASK \<noteq> s
      \<and> no_save_to s (cache_step st (Save now b)) ops)"
| "no_save_to s st (Retrieve i # ops) = no_save_to s (cache_step st (Retrieve i)) ops"
| "no_save_to s st (Discard i # ops) = no_save_to s (cache_step st (Discard i)) ops"

text \<open>The cache after \<open>n\<close> calls of \<open>save_buffer\<close> on a packet \<open>p\<close> at time \<open>now\<close>.\<close>

definition saves :: "int \<Rightarrow> 'p \<Rightarrow> nat \<Rightarrow> 'p buffer_cache" where
  "saves now p n = foldl (\<lambda>st b. fst (save_buffer now st b)) buffer_cache_init (replicate n p)"

section \<open>Actions and the incremental checksum update\<close>

text \<open>
  \<open>struct ofp_action\<close>: a type tag and a union of arguments, here a datatype with one
  constructor per action type.  \<open>OFPAT_SET_DL_VLAN\<close> is the VLAN action of the user-space
  switch; \<open>OFPAT_SET_VLAN_VID\<close>, \<open>OFPAT_SET_VLAN_PCP\<close> and \<open>OFPAT_STRIP_VLAN\<close> are
  those of the kernel datapath.  \<open>OFPAT_OTHER\<close> stands for any type code neither file names.
\<close>

datatype ofp_action =
    OFPAT_OUTPUT (port: u16) (max_len: u16)
  | OFPAT_SET_DL_VLAN (vlan_id: u16)
  | OFPAT_SET_VLAN_VID (vlan_vid: u16)
  | OFPAT_SET_VLAN_PCP (vlan_pcp: u8)
  | OFPAT_STRIP_VLAN
  | OFPAT_SET_DL_SRC (dl_addr: "u8 list")
  | OFPAT_SET_DL_DST (dl_addr: "u8 list")
  | OFPAT_SET_NW_SRC (nw_addr: u32)
  | OFPAT_SET_NW_DST (nw_addr: u32)
  | OFPAT_SET_TP_SRC (tp: u16)
  | OFPAT_SET_TP_DST (tp: u16)
  | OFPAT_OTHER (type_code: u16)

text \<open>
  The values of \<open>enum ofp_action_type\<close> are declared in openflow.h, which is not among the
  sources: they are a parameter, a record with one field per constant.  \<open>action_type T a\<close>
  is the value on the wire of the field \<open>a->type\<close>, that is \<open>ntohs(a->type)\<close>.
\<close>

record ofp_action_types =
  AT_OUTPUT :: u16
  AT_SET_DL_VLAN :: u16
  AT_SET_VLAN_VID :: u16
  AT_SET_VLAN_PCP :: u16
  AT_STRIP_VLAN :: u16
  AT_SET_DL_SRC :: u16
  AT_SET_DL_DST :: u16
  AT_SET_NW_SRC :: u16
  AT_SET_NW_DST :: u16
  AT_SET_TP_SRC :: u16
  AT_SET_TP_DST :: u16

definition action_type :: "ofp_action_types \<Rightarrow> ofp_action \<Rightarrow> u16" where
  "action_type T a =
    (case a of
       OFPAT_OUTPUT _ _ \<Rightarrow> AT_OUTPUT T
     | OFPAT_SET_DL_VLAN _ \<Rightarrow> AT_SET_DL_VLAN T
     | OFPAT_SET_VLAN_VID _ \<Rightarrow> AT_SET_VLAN_VID T
     | OFPAT_SET_VLAN_PCP _ \<Rightarrow> AT_SET_VLAN_PCP T
     | OFPAT_STRIP_VLAN \<Rightarrow> AT_STRIP_VLAN T
     | OFPAT_SET_DL_SRC _ \<Rightarrow> AT_SET_DL_SRC T
     | OFPAT_SET_DL_DST _ \<Rightarrow> AT_SET_DL_DST T
     | OFPAT_SET_NW_SRC _ \<Rightarrow> AT_SET_NW_SRC T
     | OFPAT_SET_NW_DST _ \<Rightarrow> AT_SET_NW_DST T
     | OFPAT_SET_TP_SRC _ \<Rightarrow> AT_SET_TP_SRC T
     | OFPAT_SET_TP_DST _ \<Rightarrow> AT_SET_TP_DST T
     | OFPAT_OTHER c \<Rightarrow> c)"

text \<open>
  \<open>recalc_csum16\<close> and \<open>recalc_csum32\<close> (switch/datapath.c).  The three operands are
  \<open>uint16_t\<close>, their sum is a \<open>uint32_t\<close>, and the assignment to the \<open>uint16_t\<close>
  \<open>hc_prime_complement\<close> keeps the low 16 bits of \<open>sum + (sum >> 16)\<close>.  In
  \<open>recalc_csum32\<close> the inner call receives the 32-bit values through \<open>uint16_t\<close>
  parameters, that is their low halves.
\<close>

definition recalc_csum16 :: "u16 \<Rightarrow> u16 \<Rightarrow> u16 \<Rightarrow> u16" where
  "recalc_csum16 old_csum old_u16 new_u16 =
    (let hc_complement = NOT old_csum;
         m_complement = NOT old_u16;
         m_prime = new_u16;
         sum = (ucast hc_complement + ucast m_complement + ucast m_prime :: u32);
         hc_prime_complement = (ucast (sum + drop_bit 16 sum) :: u16)
     in NOT hc_prime_complement)"

definition recalc_csum32 :: "u16 \<Rightarrow> u32 \<Rightarrow> u32 \<Rightarrow> u16" where
  "recalc_csum32 old_csum old_u32 new_u32 =
    recalc_csum16 (recalc_csum16 old_csum (ucast old_u32) (ucast new_u32))
      (ucast (drop_bit 16 old_u32)) (ucast (drop_bit 16 new_u32))"

text \<open>
  The headers that \<open>modify_nh\<close> and \<open>modify_th\<close> reach through \<open>buffer->l3\<close> and
  \<open>buffer->l4\<close>.  \<open>struct ip_header\<close> is declared in packets.h, which is not among the
  sources; it is the 20-byte IPv4 header of RFC 791.  The bytes from \<open>buffer->l4\<close> to the end
  of the packet are kept as 16-bit words: \<open>struct tcp_header\<close> and \<open>struct udp_header\<close>
  are overlaid on them, with the source port in word 0, the destination port in word 1,
  \<open>udp_csum\<close> in word 3 and \<open>tcp_csum\<close> in word 8.  The C code does not check that the
  packet is long enough for the checksum field it updates; where it is not, the function
  reads and writes past the packet and the embedding gives \<open>None\<close>.  Every field of the
  two records holds the value the field has on the wire.
\<close>

record ip_header =
  ip_ihl_ver :: u8
  ip_tos :: u8
  ip_tot_len :: u16
  ip_id :: u16
  ip_frag_off :: u16
  ip_ttl :: u8
  ip_proto :: u8
  ip_csum :: u16
  ip_src :: u32
  ip_dst :: u32

record buffer_headers =
  l3 :: ip_header
  l4 :: "u16 list"

definition ETH_TYPE_IP :: u16 where
  "ETH_TYPE_IP = 0x0800"

definition ETH_TYPE_VLAN :: u16 where
  "ETH_TYPE_VLAN = 0x8100"

definition IP_TYPE_TCP :: u8 where
  "IP_TYPE_TCP = 6"

definition IP_TYPE_UDP :: u8 where
  "IP_TYPE_UDP = 17"

text \<open>
  \<open>modify_nh\<close> (switch/datapath.c), called for \<open>OFPAT_SET_NW_SRC\<close> and
  \<open>OFPAT_SET_NW_DST\<close>, on a host of byte order \<open>h\<close>.  The function loads \<open>a->type\<close>,
  \<open>a->arg.nw_addr\<close>, the address field and the checksum fields as they lie in memory and
  passes them to \<open>recalc_csum32\<close> unconverted; the result is stored unconverted too.  The
  test \<open>a->type == OFPAT_SET_NW_SRC\<close> compares the unconverted type field with the constant.
  The test of \<open>udp_csum\<close> for zero and the constant \<open>0xffff\<close> read the same in both byte
  orders.
\<close>

definition modify_nh ::
  "byte_order \<Rightarrow> ofp_action_types \<Rightarrow> buffer_headers \<Rightarrow> u16 \<Rightarrow> u8 \<Rightarrow> ofp_action
    \<Rightarrow> buffer_headers option" where
  "modify_nh h T b eth_proto nw_proto' a =
    (if eth_proto = ETH_TYPE_IP then
       (let nh = l3 b;
            new = host32 h (nw_addr a);
            to_src = (host16 h (action_type T a) = AT_SET_NW_SRC T);
            field = host32 h (if to_src then ip_src nh else ip_dst nh);
            th = (if nw_proto' = IP_TYPE_TCP then
                    (if 8 < length (l4 b)
                     then Some ((l4 b)[8 :=
                            host16 h (recalc_csum32 (host16 h (l4 b ! 8)) field new)])
                     else None)
                  else if nw_proto' = IP_TYPE_UDP then
                    (if 3 < length (l4 b) then
                       (if l4 b ! 3 \<noteq> 0 then
                          (let c = host16 h (recalc_csum32 (host16 h (l4 b ! 3)) field new)
                           in Some ((l4 b)[3 := (if c = 0 then 0xffff else c)]))
                        else Some (l4 b))
                     else None)
                  else Some (l4 b));
            nh1 = nh\<lparr>ip_csum := host16 h (recalc_csum32 (host16 h (ip_csum nh)) field new)\<rparr>;
            nh2 = (if to_src then nh1\<lparr>ip_src := nw_addr a\<rparr> else nh1\<lparr>ip_dst := nw_addr a\<rparr>)
        in map_option (\<lambda>t. \<lparr>l3 = nh2, l4 = t\<rparr>) th)
     else Some b)"

text \<open>
  \<open>modify_th\<close> (switch/datapath.c), called for \<open>OFPAT_SET_TP_SRC\<close> and
  \<open>OFPAT_SET_TP_DST\<close>, with the same unconverted loads, comparison and stores.
\<close>

definition modify_th ::
  "byte_order \<Rightarrow> ofp_action_types \<Rightarrow> buffer_headers \<Rightarrow> u16 \<Rightarrow> u8 \<Rightarrow> ofp_action
    \<Rightarrow> buffer_headers option" where
  "modify_th h T b eth_proto nw_proto' a =
    (if eth_proto = ETH_TYPE_IP then
       (let new = tp a;
            f = (if host16 h (action_type T a) = AT_SET_TP_SRC T then 0 else 1) in
        if nw_proto' = IP_TYPE_TCP then
          (if 8 < length (l4 b)
           then Some (b\<lparr>l4 := (l4 b)
                  [8 := host16 h (recalc_csum16 (host16 h (l4 b ! 8)) (host16 h (l4 b ! f))
                                    (host16 h new)),
                   f := new]\<rparr>)
           else None)
        else if nw_proto' = IP_TYPE_UDP then
          (if 3 < length (l4 b)
           then Some (b\<lparr>l4 := (l4 b)
                  [3 := host16 h (recalc_csum16 (host16 h (l4 b ! 3)) (host16 h (l4 b ! f))
                                    (host16 h new)),
                   f := new]\<rparr>)
           else None)
        else Some b)
     else Some b)"

text \<open>
  The reference the specification compares with: the Internet checksum computed from scratch
  (RFC 1071) over the 16-bit words of a header, the checksum field itself taken as zero.
  \<open>ones_fold\<close> adds the carries back in until none is left.
\<close>

function ones_fold :: "nat \<Rightarrow> nat" where
  "ones_fold s = (if s < 65536 then s else ones_fold (s mod 65536 + s div 65536))"
  by pat_completeness auto
termination
proof (relation "measure (\<lambda>s. s)")
  show "wf (measure (\<lambda>s. s))" by simp
next
  fix s :: nat
  assume a: "\<not> s < 65536"
  have "s = 65536 * (s div 65536) + s mod 65536" by simp
  moreover have "1 \<le> s div 65536" using a by (simp add: Suc_le_eq div_greater_zero_iff)
  ultimately have "s mod 65536 + s div 65536 < s" by linarith
  then show "(s mod 65536 + s div 65536, s) \<in> measure (\<lambda>s. s)" by simp
qed

definition recompute_csum :: "u16 list \<Rightarrow> u16" where
  "recompute_csum ws = NOT (of_nat (ones_fold (sum_list (map unat ws))))"

definition ip_header_words :: "ip_header \<Rightarrow> u16 list" where
  "ip_header_words h =
    [push_bit 8 (ucast (ip_ihl_ver h)) OR ucast (ip_tos h), ip_tot_len h, ip_id h,
     ip_frag_off h, push_bit 8 (ucast (ip_ttl h)) OR ucast (ip_proto h), ip_csum h,
     ucast (drop_bit 16 (ip_src h)), ucast (ip_src h),
     ucast (drop_bit 16 (ip_dst h)), ucast (ip_dst h)]"

definition ip_csum_valid :: "ip_header \<Rightarrow> bool" where
  "ip_csum_valid h = (ip_csum h = recompute_csum (ip_header_words (h\<lparr>ip_csum := 0\<rparr>)))"

text \<open>
  An ICMP packet from 10.0.0.1 to 10.0.0.2 (header length 20, TTL 64, no options), with its
  correct header checksum.
\<close>

definition example_ip_header :: ip_header where
  "example_ip_header =
    \<lparr>ip_ihl_ver = 0x45, ip_tos = 0, ip_tot_len = 20, ip_id = 0, ip_frag_off = 0, ip_ttl = 64,
     ip_proto = 1, ip_csum = 0x66E7, ip_src = 0x0A000001, ip_dst = 0x0A000002\<rparr>"

text \<open>
  Values for the action types in the closed instance below, numbered in the order of the
  constructors.  The instance uses \<open>OFPAT_SET_NW_DST\<close>, for which \<open>modify_nh\<close> rewrites
  \<open>ip_dst\<close> in either byte order whenever the values of \<open>OFPAT_SET_NW_SRC\<close> and
  \<open>OFPAT_SET_NW_DST\<close> differ and are below 256.
\<close>

definition example_action_types :: ofp_action_types where
  "example_action_types =
    \<lparr>AT_OUTPUT = 0, AT_SET_DL_VLAN = 1, AT_SET_VLAN_VID = 2, AT_SET_VLAN_PCP = 3,
     AT_STRIP_VLAN = 4, AT_SET_DL_SRC = 5, AT_SET_DL_DST = 6, AT_SET_NW_SRC = 7,
     AT_SET_NW_DST = 8, AT_SET_TP_SRC = 9, AT_SET_TP_DST = 10\<rparr>"

section \<open>The action interpreter\<close>

text \<open>
  \<open>execute_actions\<close> of switch/datapath.c walks the action list once.  What it does to the
  outside is a sequence of calls, recorded here in order: \<open>Do_output c b in_port max_len port\<close>
  is the call \<open>do_output(dp, b, in_port, max_len, port)\<close>, with \<open>c\<close> true when \<open>b\<close> is a
  fresh \<open>buffer_clone\<close> of the packet and false when it is the packet itself;
  \<open>Buffer_delete b\<close> is \<open>buffer_delete\<close> of the packet; \<open>Not_reached\<close> is the
  \<open>NOT_REACHED()\<close> of the \<open>default\<close> branch, which ends the program.
\<close>

datatype 'b event =
    Do_output (cloned: bool) 'b int nat int
  | Buffer_delete 'b
  | Not_reached

definition is_clone :: "'b event \<Rightarrow> bool" where
  "is_clone e = (case e of Do_output c _ _ _ _ \<Rightarrow> c | _ \<Rightarrow> False)"


definition is_output :: "ofp_action \<Rightarrow> bool" where
  "is_output a = (case a of OFPAT_OUTPUT _ _ \<Rightarrow> True | _ \<Rightarrow> False)"

text \<open>The action types that have a \<open>case\<close> in the \<open>switch\<close> of switch/datapath.c.\<close>

definition switch_supported :: "ofp_action \<Rightarrow> bool" where
  "switch_supported a =
    (case a of OFPAT_OUTPUT _ _ \<Rightarrow> True | OFPAT_SET_DL_VLAN _ \<Rightarrow> True
     | OFPAT_SET_DL_SRC _ \<Rightarrow> True | OFPAT_SET_DL_DST _ \<Rightarrow> True
     | OFPAT_SET_NW_SRC _ \<Rightarrow> True | OFPAT_SET_NW_DST _ \<Rightarrow> True
     | OFPAT_SET_TP_SRC _ \<Rightarrow> True | OFPAT_SET_TP_DST _ \<Rightarrow> True
     | _ \<Rightarrow> False)"

text \<open>
  The \<open>for\<close> loop with its local variables \<open>prev_port\<close> (an \<open>int\<close>, \<open>-1\<close> for no
  pending output) and \<open>max_len\<close>, followed by the statement after the loop.  The rewrite
  actions (\<open>modify_vlan\<close>, the two \<open>memcpy\<close>, \<open>modify_nh\<close>, \<open>modify_th\<close>) change
  bytes of the packet in place and nothing else; they are the parameter \<open>rw\<close>, so that the
  packet type is left open.
\<close>

fun execute_actions_loop ::
  "(ofp_action \<Rightarrow> 'b \<Rightarrow> 'b) \<Rightarrow> int \<Rightarrow> ofp_action list \<Rightarrow> int \<Rightarrow> nat \<Rightarrow> 'b \<Rightarrow> 'b event list" where
  "execute_actions_loop rw inp [] prev_port ml b =
    (if prev_port \<noteq> - 1 then [Do_output False b inp ml prev_port] else [Buffer_delete b])"
| "execute_actions_loop rw inp (a # as) prev_port ml b =
    (if prev_port \<noteq> - 1 then [Do_output True b inp ml prev_port] else []) @
    (if is_output a then execute_actions_loop rw inp as (uint (port a)) (unat (max_len a)) b
     else if switch_supported a then execute_actions_loop rw inp as (- 1) ml (rw a b)
     else [Not_reached])"

definition execute_actions ::
  "(sw_flow_key \<Rightarrow> ofp_action \<Rightarrow> 'b \<Rightarrow> 'b) \<Rightarrow> 'b \<Rightarrow> int \<Rightarrow> sw_flow_key \<Rightarrow> ofp_action list \<Rightarrow> 'b event list" where
  "execute_actions rw b inp key actions = execute_actions_loop (rw key) inp actions (- 1) 0 b"

text \<open>
  \<open>execute_actions\<close> of datapath/forward.c.  \<open>skb_clone\<close> is the kernel's and may fail
  (a null pointer, \<open>None\<close>); \<open>make_writable\<close> may fail, which leaves the loop by
  \<open>break\<close>; \<open>execute_setter\<close> may lose the packet, which returns at once, and it may
  change \<open>key->dl_vlan\<close>.  The three are parameters.  \<open>K_do_output c skb max_len port
  ignore_no_fwd\<close> is the call of the kernel's \<open>do_output\<close>, \<open>Kfree_skb\<close> that of
  \<open>kfree_skb\<close>.
\<close>

record 'b skb_ops =
  skb_clone :: "'b \<Rightarrow> 'b option"
  make_writable :: "'b \<Rightarrow> 'b option"
  execute_setter :: "'b \<Rightarrow> u16 \<Rightarrow> sw_flow_key \<Rightarrow> ofp_action \<Rightarrow> ('b \<times> sw_flow_key) option"

datatype 'b kevent =
    K_do_output bool "'b option" nat int bool
  | Kfree_skb 'b

definition is_kclone :: "'b kevent \<Rightarrow> bool" where
  "is_kclone e = (case e of K_do_output c _ _ _ _ \<Rightarrow> c | _ \<Rightarrow> False)"

definition is_koutput :: "'b kevent \<Rightarrow> bool" where
  "is_koutput e = (case e of K_do_output _ _ _ _ _ \<Rightarrow> True | _ \<Rightarrow> False)"

fun fwd_execute_actions_loop ::
  "'b skb_ops \<Rightarrow> u16 \<Rightarrow> bool \<Rightarrow> ofp_action list \<Rightarrow> int \<Rightarrow> nat \<Rightarrow> 'b \<Rightarrow> sw_flow_key
    \<Rightarrow> 'b kevent list" where
  "fwd_execute_actions_loop ops eth_proto ign [] prev_port ml skb key =
    (if prev_port \<noteq> - 1 then [K_do_output False (Some skb) ml prev_port ign]
     else [Kfree_skb skb])"
| "fwd_execute_actions_loop ops eth_proto ign (a # as) prev_port ml skb key =
    (if prev_port \<noteq> - 1 then [K_do_output True (skb_clone ops skb) ml prev_port ign] else []) @
    (if is_output a
     then fwd_execute_actions_loop ops eth_proto ign as (uint (port a)) (unat (max_len a)) skb key
     else (case make_writable ops skb of
             None \<Rightarrow> [Kfree_skb skb]
           | Some skb1 \<Rightarrow>
               (case execute_setter ops skb1 eth_proto key a of
                  None \<Rightarrow> []
                | Some (skb2, key2) \<Rightarrow>
                    fwd_execute_actions_loop ops eth_proto ign as (- 1) ml skb2 key2)))"

definition fwd_execute_actions ::
  "'b skb_ops \<Rightarrow> 'b \<Rightarrow> sw_flow_key \<Rightarrow> ofp_action list \<Rightarrow> bool \<Rightarrow> 'b kevent list" where
  "fwd_execute_actions ops skb key actions ignore_no_fwd =
    fwd_execute_actions_loop ops (dl_type (flow key)) ignore_no_fwd actions (- 1) 0 skb key"





definition example_skb_ops :: "ofp_action list skb_ops" where
  "example_skb_ops =
    \<lparr>skb_clone = Some, make_writable = Some,
     execute_setter = (\<lambda>skb ep key a. Some (skb @ [a], key))\<rparr>"


section \<open>The header parser\<close>

text \<open>
  A frame is the list of its bytes, from the first byte of the Ethernet header.  \<open>be16\<close> and
  \<open>be32\<close> read a 16-bit and a 32-bit field at a byte offset; every use below is guarded by
  the length check the C code makes, or, where the C code makes none, by a check that turns
  the read past the end of the frame into \<open>None\<close>.
\<close>

definition be16 :: "u8 list \<Rightarrow> nat \<Rightarrow> u16" where
  "be16 p i = push_bit 8 (ucast (p ! i)) OR ucast (p ! (i + 1))"

definition be32 :: "u8 list \<Rightarrow> nat \<Rightarrow> u32" where
  "be32 p i = push_bit 24 (ucast (p ! i)) OR push_bit 16 (ucast (p ! (i + 1)))
              OR push_bit 8 (ucast (p ! (i + 2))) OR ucast (p ! (i + 3))"

text \<open>
  Constants of openflow.h, packets.h and the Linux headers, none of which is among the
  sources: the values are those of the protocols (IEEE 802.3, 802.1Q, RFC 791, 793, 768, 826)
  and of section 4.1 of the specification.  The two variants name some of them differently
  (\<open>ETH_P_IP\<close> for \<open>ETH_TYPE_IP\<close>, \<open>ETH_P_8021Q\<close> for \<open>ETH_TYPE_VLAN\<close>, \<open>IPPROTO_TCP\<close>
  for \<open>IP_TYPE_TCP\<close>, \<open>VLAN_VID\<close> for \<open>VLAN_VID_MASK\<close>); one name is used here.
\<close>

definition OFP_DL_TYPE_ETH2_CUTOFF :: u16 where "OFP_DL_TYPE_ETH2_CUTOFF = 0x0600"
definition OFP_DL_TYPE_NOT_ETH_TYPE :: u16 where "OFP_DL_TYPE_NOT_ETH_TYPE = 0x05ff"
definition OFP_VLAN_NONE :: u16 where "OFP_VLAN_NONE = 0xffff"
definition VLAN_VID_MASK :: u16 where "VLAN_VID_MASK = 0x0fff"
definition ETH_TYPE_ARP :: u16 where "ETH_TYPE_ARP = 0x0806"
definition IP_MF :: u16 where "IP_MF = 0x2000"
definition IP_OFFSET :: u16 where "IP_OFFSET = 0x1fff"
definition ETH_HEADER_LEN :: nat where "ETH_HEADER_LEN = 14"
definition SNAP_HDR_LEN :: nat where "SNAP_HDR_LEN = 8"
definition LLC_HEADER_LEN :: nat where "LLC_HEADER_LEN = 3"
definition VLAN_HEADER_LEN :: nat where "VLAN_HEADER_LEN = 4"
definition IP_HEADER_LEN :: nat where "IP_HEADER_LEN = 20"
definition TCP_HEADER_LEN :: nat where "TCP_HEADER_LEN = 20"
definition UDP_HEADER_LEN :: nat where "UDP_HEADER_LEN = 8"
definition ARP_ETH_HEADER_LEN :: nat where "ARP_ETH_HEADER_LEN = 28"

text \<open>
  \<open>tcphdr_ok\<close> and \<open>udphdr_ok\<close> of datapath/flow.c.  \<open>skb->len\<close> is the length of the
  frame, and \<open>tcp_hdrlen\<close> is four times the data-offset nibble of the TCP header.
\<close>

definition tcphdr_ok :: "u8 list \<Rightarrow> nat \<Rightarrow> bool" where
  "tcphdr_ok skb th_ofs =
    (if length skb \<ge> th_ofs + TCP_HEADER_LEN then
       (let tcp_len = unat (drop_bit 4 (skb ! (th_ofs + 12))) * 4
        in tcp_len \<ge> TCP_HEADER_LEN \<and> length skb \<ge> th_ofs + tcp_len)
     else False)"

definition udphdr_ok :: "u8 list \<Rightarrow> nat \<Rightarrow> bool" where
  "udphdr_ok skb th_ofs = (length skb \<ge> th_ofs + UDP_HEADER_LEN)"

text \<open>
  The data-link part of \<open>flow_extract\<close> of datapath/flow.c: the EtherType (through LLC/SNAP
  for an 802.2 frame), the VLAN tag, and the offset \<open>nh_ofs\<close> of the network header.
  \<open>snap_get_ethertype\<close> is declared in snap.h, which is not among the sources; it is a
  parameter that gives the encapsulated EtherType, or \<open>None\<close> for its \<open>-EINVAL\<close>.  The C
  code does not check that the frame holds the headers it reads, as its comment says; a frame
  too short for them gives \<open>None\<close>.
\<close>

definition parse_l2 :: "(u8 list \<Rightarrow> u16 option) \<Rightarrow> u8 list \<Rightarrow> (u16 \<times> u16 \<times> nat) option" where
  "parse_l2 snap_get_ethertype skb =
    (if length skb < ETH_HEADER_LEN then None
     else
       let h_proto = be16 skb 12;
           (t0, ofs0) =
             (if h_proto \<ge> OFP_DL_TYPE_ETH2_CUTOFF then (h_proto, ETH_HEADER_LEN)
              else (case snap_get_ethertype skb of
                      Some t \<Rightarrow> (t, ETH_HEADER_LEN + SNAP_HDR_LEN)
                    | None \<Rightarrow> (OFP_DL_TYPE_NOT_ETH_TYPE, ETH_HEADER_LEN + LLC_HEADER_LEN)))
       in if t0 \<noteq> ETH_TYPE_VLAN then Some (t0, OFP_VLAN_NONE, ofs0)
          else if length skb < ofs0 + VLAN_HEADER_LEN then None
          else Some (be16 skb (ofs0 + 2), be16 skb ofs0 AND VLAN_VID_MASK,
                     ofs0 + VLAN_HEADER_LEN))"

text \<open>
  \<open>nh->frag_off & htons(IP_MF | IP_OFFSET)\<close> and \<open>nh_ofs + nh->ihl * 4\<close> for the IPv4
  header at offset \<open>nh_ofs\<close>.
\<close>

definition ip_is_fragment :: "u8 list \<Rightarrow> nat \<Rightarrow> bool" where
  "ip_is_fragment skb nh_ofs = (be16 skb (nh_ofs + 6) AND (IP_MF OR IP_OFFSET) \<noteq> 0)"

definition ip_transport_ofs :: "u8 list \<Rightarrow> nat \<Rightarrow> nat" where
  "ip_transport_ofs skb nh_ofs = nh_ofs + unat (skb ! nh_ofs AND 0x0f) * 4"

text \<open>
  \<open>flow_extract\<close> of datapath/flow.c.  The result is the key and the return value of the C
  function (1 for an IP fragment, 0 otherwise).  The three labels \<open>no_proto\<close>, \<open>no_th\<close>
  and the plain \<open>return 0\<close> are the branches that clear \<open>nw_proto\<close> and the ports, the
  ports only, or nothing.
\<close>

definition kernel_flow_extract ::
  "(u8 list \<Rightarrow> u16 option) \<Rightarrow> u8 list \<Rightarrow> u16 \<Rightarrow> (sw_flow_key \<times> int) option" where
  "kernel_flow_extract snap_get_ethertype skb in_port' =
    (case parse_l2 snap_get_ethertype skb of
       None \<Rightarrow> None
     | Some (t, vlan, nh_ofs) \<Rightarrow>
        let f0 = \<lparr>in_port = in_port', dl_vlan = vlan, dl_src = take 6 (drop 6 skb),
                  dl_dst = take 6 skb, dl_type = t, nw_src = 0, nw_dst = 0, nw_proto = 0,
                  tp_src = 0, tp_dst = 0\<rparr>;
            key = (\<lambda>f. \<lparr>flow = f, wildcards = 0, nw_src_mask = 0, nw_dst_mask = 0\<rparr>)
        in if t = ETH_TYPE_IP then
             (if length skb < nh_ofs + IP_HEADER_LEN then None
              else
                let protocol = skb ! (nh_ofs + 9);
                    f1 = f0\<lparr>nw_src := be32 skb (nh_ofs + 12), nw_dst := be32 skb (nh_ofs + 16),
                            nw_proto := protocol\<rparr>;
                    th_ofs = ip_transport_ofs skb nh_ofs
                in if \<not> ip_is_fragment skb nh_ofs then
                     (if protocol = IP_TYPE_TCP then
                        (if tcphdr_ok skb th_ofs
                         then Some (key (f1\<lparr>tp_src := be16 skb th_ofs,
                                              tp_dst := be16 skb (th_ofs + 2)\<rparr>), 0)
                         else Some (key (f1\<lparr>nw_proto := 0, tp_src := 0, tp_dst := 0\<rparr>), 0))
                      else if protocol = IP_TYPE_UDP then
                        (if udphdr_ok skb th_ofs
                         then Some (key (f1\<lparr>tp_src := be16 skb th_ofs,
                                              tp_dst := be16 skb (th_ofs + 2)\<rparr>), 0)
                         else Some (key (f1\<lparr>nw_proto := 0, tp_src := 0, tp_dst := 0\<rparr>), 0))
                      else Some (key (f1\<lparr>tp_src := 0, tp_dst := 0\<rparr>), 0))
                   else Some (key (f1\<lparr>tp_src := 0, tp_dst := 0\<rparr>), 1))
           else Some (key (f0\<lparr>nw_src := 0, nw_dst := 0, nw_proto := 0,
                               tp_src := 0, tp_dst := 0\<rparr>), 0))"

text \<open>
  \<open>flow_extract\<close> of lib/flow.c, the parser of the user-space switch, in the three steps of
  its body.  It works on a copy \<open>b\<close> of the buffer from which it pulls the headers it has
  read.  \<open>strip_llc\<close> is the Ethernet II / 802.2 step; its \<open>None\<close> is the early
  \<open>return\<close> taken when the LLC/SNAP header is not all there.  \<open>strip_vlan\<close> is the VLAN step;
  its \<open>None\<close> is the dereference of the null pointer that \<open>buffer_at\<close> returns when the tag
  is not all there.  \<open>extract_l3\<close> is the IPv4 / ARP step.  The function returns nothing; the
  result here is the flow it has filled in, which \<open>memset\<close> zeroed first.
\<close>

definition strip_llc :: "u16 \<Rightarrow> u8 list \<Rightarrow> (u16 \<times> u8 list) option" where
  "strip_llc eth_type b =
    (if eth_type \<ge> OFP_DL_TYPE_ETH2_CUTOFF then Some (eth_type, b)
     else if length b < SNAP_HDR_LEN then None
     else if b ! 0 = 0xAA \<and> b ! 1 = 0xAA \<and> b ! 2 = 0x03 \<and> take 3 (drop 3 b) = [0, 0, 0]
          then Some (be16 b 6, drop SNAP_HDR_LEN b)
          else Some (OFP_DL_TYPE_NOT_ETH_TYPE, drop LLC_HEADER_LEN b))"

definition strip_vlan :: "u16 \<Rightarrow> u8 list \<Rightarrow> (u16 \<times> u16 \<times> u8 list) option" where
  "strip_vlan t0 b =
    (if t0 \<noteq> ETH_TYPE_VLAN then Some (t0, OFP_VLAN_NONE, b)
     else if length b < VLAN_HEADER_LEN then None
     else Some (be16 b 2, be16 b 0 AND VLAN_VID_MASK, drop VLAN_HEADER_LEN b))"

definition extract_l3 :: "flow \<Rightarrow> u8 list \<Rightarrow> flow" where
  "extract_l3 f0 b =
    (if dl_type f0 = ETH_TYPE_IP then
       (if IP_HEADER_LEN \<le> length b then
          (let f1 = f0\<lparr>nw_src := be32 b 12, nw_dst := be32 b 16, nw_proto := b ! 9\<rparr>
           in if nw_proto f1 = IP_TYPE_TCP \<or> nw_proto f1 = IP_TYPE_UDP then
                (let udp_ofs = unat (b ! 0 AND 15) * 4
                 in if udp_ofs + UDP_HEADER_LEN \<le> length b
                    then f1\<lparr>tp_src := be16 b udp_ofs, tp_dst := be16 b (udp_ofs + 2)\<rparr>
                    else f1)
              else f1)
        else f0)
     else if dl_type f0 = ETH_TYPE_ARP then
       (if ARP_ETH_HEADER_LEN \<le> length b \<and> be16 b 0 = 1 \<and> be16 b 2 = 0x0800
           \<and> b ! 4 = 6 \<and> b ! 5 = 4
        then f0\<lparr>nw_src := be32 b 14, nw_dst := be32 b 24\<rparr>
        else f0)
     else f0)"

definition flow_extract :: "u8 list \<Rightarrow> u16 \<Rightarrow> flow option" where
  "flow_extract packet in_port' =
    (let zero = \<lparr>in_port = in_port', dl_vlan = 0, dl_src = replicate 6 0, dl_dst = replicate 6 0,
                 dl_type = 0, nw_src = 0, nw_dst = 0, nw_proto = 0, tp_src = 0, tp_dst = 0\<rparr>
     in if length packet < ETH_HEADER_LEN then Some zero
        else
          (case strip_llc (be16 packet 12) (drop ETH_HEADER_LEN packet) of
             None \<Rightarrow> Some zero
           | Some (t0, b0) \<Rightarrow>
               (case strip_vlan t0 b0 of
                  None \<Rightarrow> None
                | Some (t, vlan, b1) \<Rightarrow>
                    Some (extract_l3
                           (zero\<lparr>dl_type := t, dl_vlan := vlan,
                                 dl_src := take 6 (drop 6 packet), dl_dst := take 6 packet\<rparr>)
                           b1))))"

text \<open>
  Two 60-byte frames and one of 46 bytes.  \<open>frag_frame\<close> is a later fragment (offset 185)
  of a UDP datagram, so the eight bytes after its IPv4 header are payload.
  \<open>long_ihl_frame\<close> is a TCP packet whose IPv4 header length field says 60 bytes, which
  puts the transport header past the end of the frame.  \<open>short_tcp_frame\<close> is a TCP packet
  cut off after the first 12 bytes of its TCP header.
\<close>

definition frag_frame :: "u8 list" where
  "frag_frame =
    [0, 1, 2, 3, 4, 6,  0, 1, 2, 3, 4, 5,  0x08, 0x00,
     0x45, 0x00, 0x00, 0x1C, 0x00, 0x01, 0x00, 0xB9, 0x40, 0x11, 0x66, 0x15,
     0x0A, 0x00, 0x00, 0x01, 0x0A, 0x00, 0x00, 0x02,
     0x12, 0x34, 0x56, 0x78, 0x9A, 0xBC, 0xDE, 0xF0,
     0, 0, 0, 0, 0, 0, 0, 0, 0, 0, 0, 0, 0, 0, 0, 0, 0, 0]"



section \<open>Flow entries, tables and the chain of the user-space switch\<close>

text \<open>
  \<open>struct sw_flow\<close> of switch/switch-flow.h, with the three further fields that
  \<open>flow_timeout\<close> and \<open>flow_used\<close> of switch/switch-flow.c read and write (\<open>used\<close>,
  \<open>idle_timeout\<close>, \<open>hard_timeout\<close>).  The field names carry the prefix \<open>sf_\<close>.  The
  counters are \<open>uint64_t\<close> and are not bounded here.
\<close>

record sw_flow =
  sf_key :: sw_flow_key
  sf_group_id :: u32
  sf_max_idle :: u16
  sf_created :: int
  sf_timeout :: int
  sf_used :: int
  sf_idle_timeout :: u16
  sf_hard_timeout :: u16
  sf_packet_count :: nat
  sf_byte_count :: nat
  sf_actions :: "ofp_action list"

text \<open>
  \<open>struct sw_table\<close> is a table of function pointers over private state.  The table
  implementations of the user-space switch are not among the sources, so a table is a value of
  an open type \<open>'t\<close> and its operations are a parameter: \<open>t_lookup\<close> gives the matching
  flow or \<open>None\<close> for a null pointer; \<open>t_insert\<close> gives the table with the flow added, or
  \<open>None\<close> when the C function returns 0; \<open>t_timeout\<close> gives the table without its
  timed-out flows and the flows it appended to the list \<open>deleted\<close>.
\<close>

record ('t, 'f) sw_table_ops =
  t_lookup :: "'t \<Rightarrow> sw_flow_key \<Rightarrow> 'f option"
  t_insert :: "'t \<Rightarrow> 'f \<Rightarrow> 't option"
  t_timeout :: "'t \<Rightarrow> 't \<times> 'f list"

text \<open>
  \<open>chain_lookup\<close>, \<open>chain_insert\<close> and \<open>chain_timeout\<close> of switch/chain.c: the loops over
  \<open>chain->tables\<close>.  \<open>chain_insert\<close> gives \<open>None\<close> for \<open>-ENOBUFS\<close>.  \<open>chain_lookup\<close>
  asserts that the key has no wildcards; its one caller here sets them to zero.
\<close>

fun chain_lookup :: "('t, 'f) sw_table_ops \<Rightarrow> 't list \<Rightarrow> sw_flow_key \<Rightarrow> 'f option" where
  "chain_lookup ops [] key = None"
| "chain_lookup ops (t # ts) key =
    (case t_lookup ops t key of Some fl \<Rightarrow> Some fl | None \<Rightarrow> chain_lookup ops ts key)"

fun chain_insert :: "('t, 'f) sw_table_ops \<Rightarrow> 't list \<Rightarrow> 'f \<Rightarrow> 't list option" where
  "chain_insert ops [] fl = None"
| "chain_insert ops (t # ts) fl =
    (case t_insert ops t fl of
       Some t' \<Rightarrow> Some (t' # ts)
     | None \<Rightarrow> map_option ((#) t) (chain_insert ops ts fl))"

fun chain_timeout :: "('t, 'f) sw_table_ops \<Rightarrow> 't list \<Rightarrow> 'f list \<Rightarrow> 't list \<times> 'f list" where
  "chain_timeout ops [] deleted = ([], deleted)"
| "chain_timeout ops (t # ts) deleted =
    (let (t', d) = t_timeout ops t;
         (ts', deleted') = chain_timeout ops ts (deleted @ d)
     in (t' # ts', deleted'))"

text \<open>
  \<open>flow_timeout\<close> and \<open>flow_used\<close> of switch/switch-flow.c.  \<open>flow_timeout\<close> returns
  true after storing the reason in the flow; here the reason is the result and \<open>None\<close> is
  false.  \<open>OFP_FLOW_PERMANENT\<close> is zero (section 3 of the specification).
\<close>

datatype ofp_flow_expired_reason = OFPER_IDLE_TIMEOUT | OFPER_HARD_TIMEOUT

definition OFP_FLOW_PERMANENT :: u16 where
  "OFP_FLOW_PERMANENT = 0"

definition flow_timeout :: "int \<Rightarrow> sw_flow \<Rightarrow> ofp_flow_expired_reason option" where
  "flow_timeout now fl =
    (if sf_idle_timeout fl \<noteq> OFP_FLOW_PERMANENT
        \<and> now > sf_used fl + uint (sf_idle_timeout fl) then Some OFPER_IDLE_TIMEOUT
     else if sf_hard_timeout fl \<noteq> OFP_FLOW_PERMANENT
        \<and> now > sf_created fl + uint (sf_hard_timeout fl) then Some OFPER_HARD_TIMEOUT
     else None)"

definition flow_used :: "int \<Rightarrow> sw_flow \<Rightarrow> u8 list \<Rightarrow> sw_flow" where
  "flow_used now fl b =
    fl\<lparr>sf_used := now, sf_packet_count := sf_packet_count fl + 1,
        sf_byte_count := sf_byte_count fl + length b\<rparr>"

text \<open>
  Modelled from the spec: the linear table of the user-space switch (switch/table-linear.c is
  not among the sources), used for the closed examples only.  Section 4.3: an ordered list
  that accepts any entry, whose lookup returns the first match by the one-sided rule, and whose
  sweep scans the whole list.  The flow entry of the user-space switch has no priority, so the
  list is in insertion order; \<open>max_flows\<close> is its capacity.
\<close>

definition table_linear_ops ::
  "ofp_flow_wildcards \<Rightarrow> nat \<Rightarrow> int \<Rightarrow> (sw_flow list, sw_flow) sw_table_ops" where
  "table_linear_ops W max_flows now =
    \<lparr>t_lookup = (\<lambda>t key. find (\<lambda>fl. flow_matches_1wild W key (sf_key fl)) t),
     t_insert = (\<lambda>t fl. if length t < max_flows then Some (t @ [fl]) else None),
     t_timeout = (\<lambda>t. (filter (\<lambda>fl. flow_timeout now fl = None) t,
                        filter (\<lambda>fl. flow_timeout now fl \<noteq> None) t))\<rparr>"

text \<open>
  \<open>struct datapath\<close> of switch/datapath.c, without its connections and ports, and
  \<open>struct ofp_switch_config\<close> without its header.
\<close>

record ofp_switch_config =
  flags :: u16
  miss_send_len :: u16

record 't datapath =
  last_timeout :: int
  chain :: "'t list"
  config :: ofp_switch_config

section \<open>PACKET\_IN\<close>

text \<open>
  \<open>struct ofp_packet_in\<close> after its 8-byte header (version \<open>OFP_VERSION\<close>, type
  \<open>OFPT_PACKET_IN\<close>, length, xid 0): the fields \<open>dp_output_control\<close> fills in and the
  payload that follows them.
\<close>

datatype ofp_reason = OFPR_NO_MATCH | OFPR_ACTION

record ofp_packet_in =
  opi_buffer_id :: u32
  opi_total_len :: u16
  opi_in_port :: u16
  opi_reason :: ofp_reason
  opi_data :: "u8 list"

text \<open>
  \<open>dp_output_control\<close> of switch/datapath.c.  The packet is the list of its bytes, so
  \<open>buffer->size\<close> is its length and \<open>buffer->size = max_len\<close> keeps the first
  \<open>max_len\<close> bytes.  \<open>htons\<close> of \<open>total_len\<close> (a \<open>size_t\<close>) and of \<open>in_port\<close> (an
  \<open>int\<close>) keeps their low 16 bits.  The result is the cache after \<open>save_buffer\<close> and the
  message handed to \<open>send_openflow_buffer\<close>.
\<close>

definition dp_output_control ::
  "int \<Rightarrow> (u8 list) buffer_cache \<Rightarrow> u8 list \<Rightarrow> int \<Rightarrow> nat \<Rightarrow> ofp_reason
    \<Rightarrow> (u8 list) buffer_cache \<times> ofp_packet_in" where
  "dp_output_control now st b in_port' max_len' reason =
    (let (st', buffer_id) = save_buffer now st b;
         total_len = length b;
         data = (if buffer_id \<noteq> UINT32_MAX \<and> length b > max_len' then take max_len' b else b)
     in (st', \<lparr>opi_buffer_id = buffer_id, opi_total_len = of_nat total_len,
               opi_in_port = of_int in_port', opi_reason = reason, opi_data = data\<rparr>))"

text \<open>
  \<open>fwd_port_input\<close> of switch/datapath.c.  On a hit the result is the flow as
  \<open>flow_used\<close> leaves it (in C the entry is updated in place in its table) and the calls of
  \<open>execute_actions\<close>; on a miss it is the PACKET\_IN.  \<open>None\<close> is the crash of
  \<open>flow_extract\<close>.
\<close>

datatype port_input_result =
    Executed sw_flow "(u8 list) event list"
  | Sent_to_controller ofp_packet_in

definition fwd_port_input ::
  "('t, sw_flow) sw_table_ops \<Rightarrow> (sw_flow_key \<Rightarrow> ofp_action \<Rightarrow> u8 list \<Rightarrow> u8 list) \<Rightarrow> int
    \<Rightarrow> 't datapath \<Rightarrow> (u8 list) buffer_cache \<Rightarrow> u8 list \<Rightarrow> int
    \<Rightarrow> ((u8 list) buffer_cache \<times> port_input_result) option" where
  "fwd_port_input ops rw now dp st b in_port' =
    (case flow_extract b (of_int in_port') of
       None \<Rightarrow> None
     | Some f \<Rightarrow>
         let key = \<lparr>flow = f, wildcards = 0, nw_src_mask = 0, nw_dst_mask = 0\<rparr>
         in (case chain_lookup ops (chain dp) key of
               Some fl \<Rightarrow>
                 Some (st, Executed (flow_used now fl b)
                             (execute_actions rw b in_port' key (sf_actions fl)))
             | None \<Rightarrow>
                 (let (st', opi) = dp_output_control now st b in_port'
                                     (unat (miss_send_len (config dp))) OFPR_NO_MATCH
                  in Some (st', Sent_to_controller opi))))"

section \<open>The control-message dispatch\<close>

text \<open>
  The message types are an \<open>enum\<close> of openflow.h, which is not among the sources; they are a
  datatype here, with \<open>OFPT_UNKNOWN\<close> for a type byte that names none of them.
  \<open>recv_*\<close> are the handlers the two dispatch tables name.
\<close>

datatype ofp_type =
    OFPT_HELLO | OFPT_ERROR | OFPT_ECHO_REQUEST | OFPT_ECHO_REPLY | OFPT_VENDOR
  | OFPT_FEATURES_REQUEST | OFPT_FEATURES_REPLY | OFPT_GET_CONFIG_REQUEST
  | OFPT_GET_CONFIG_REPLY | OFPT_SET_CONFIG | OFPT_PACKET_IN | OFPT_PACKET_OUT
  | OFPT_FLOW_MOD | OFPT_FLOW_EXPIRED | OFPT_PORT_MOD | OFPT_PORT_STATUS
  | OFPT_STATS_REQUEST | OFPT_STATS_REPLY | OFPT_UNKNOWN u8

record 'ty ofp_header =
  oh_version :: u8
  oh_type :: 'ty
  oh_length :: u16
  oh_xid :: u32

datatype errno = EINVAL | EFAULT | ENOSYS | ENOMEM | ESRCH | ENOBUFS | E2BIG | ENODEV | ENOTSUPP

datatype handler =
    recv_hello | recv_features_request | recv_get_config_request | recv_set_config
  | recv_packet_out | recv_flow | recv_port_mod | recv_echo_request | recv_echo_reply
  | recv_flow_status_request | recv_port_status_request | recv_table_status_request

datatype ofp_bad_request_code = OFPBRC_BAD_VERSION | OFPBRC_BAD_TYPE

text \<open>The \<open>sizeof\<close> of the message structures, which openflow.h declares: a parameter.\<close>

record ofp_sizes =
  sizeof_ofp_header :: nat
  sizeof_ofp_switch_config :: nat
  sizeof_ofp_packet_out :: nat
  sizeof_ofp_flow_mod :: nat
  sizeof_ofp_port_mod :: nat

text \<open>
  The array \<open>packets[]\<close> of \<open>fwd_control_input\<close> in datapath/forward.c.  A type beyond
  the end of the array and a type whose entry has a null handler take the same branch of the
  function, so both are \<open>None\<close>.
\<close>

definition packets :: "ofp_sizes \<Rightarrow> ofp_type \<Rightarrow> (nat \<times> handler) option" where
  "packets S t =
    (case t of
       OFPT_HELLO \<Rightarrow> Some (sizeof_ofp_header S, recv_hello)
     | OFPT_FEATURES_REQUEST \<Rightarrow> Some (sizeof_ofp_header S, recv_features_request)
     | OFPT_GET_CONFIG_REQUEST \<Rightarrow> Some (sizeof_ofp_header S, recv_get_config_request)
     | OFPT_SET_CONFIG \<Rightarrow> Some (sizeof_ofp_switch_config S, recv_set_config)
     | OFPT_PACKET_OUT \<Rightarrow> Some (sizeof_ofp_packet_out S, recv_packet_out)
     | OFPT_FLOW_MOD \<Rightarrow> Some (sizeof_ofp_flow_mod S, recv_flow)
     | OFPT_PORT_MOD \<Rightarrow> Some (sizeof_ofp_port_mod S, recv_port_mod)
     | OFPT_ECHO_REQUEST \<Rightarrow> Some (sizeof_ofp_header S, recv_echo_request)
     | OFPT_ECHO_REPLY \<Rightarrow> Some (sizeof_ofp_header S, recv_echo_reply)
     | _ \<Rightarrow> None)"

definition version_exempt :: "ofp_type \<Rightarrow> bool" where
  "version_exempt t =
    (t = OFPT_HELLO \<or> t = OFPT_ERROR \<or> t = OFPT_ECHO_REQUEST \<or> t = OFPT_ECHO_REPLY
     \<or> t = OFPT_VENDOR)"

text \<open>
  \<open>fwd_control_input\<close> of datapath/forward.c.  \<open>OFP_VERSION\<close> is a constant of openflow.h
  and a parameter here.  The result is the error message sent with \<open>dp_send_error_msg\<close>, if
  any, and either the error returned or the handler that is called (whose return value is
  then the result of the function).
\<close>

definition fwd_control_input ::
  "u8 \<Rightarrow> ofp_sizes \<Rightarrow> ofp_type ofp_header \<Rightarrow> nat
    \<Rightarrow> ofp_bad_request_code option \<times> (errno + handler)" where
  "fwd_control_input OFP_VERSION S oh len =
    (if oh_version oh \<noteq> OFP_VERSION
        \<and> oh_type oh \<noteq> OFPT_HELLO
        \<and> oh_type oh \<noteq> OFPT_ERROR
        \<and> oh_type oh \<noteq> OFPT_ECHO_REQUEST
        \<and> oh_type oh \<noteq> OFPT_ECHO_REPLY
        \<and> oh_type oh \<noteq> OFPT_VENDOR
     then (Some OFPBRC_BAD_VERSION, Inl EINVAL)
     else if unat (oh_length oh) > len then (None, Inl EINVAL)
     else (case packets S (oh_type oh) of
             Some (min_size, h) \<Rightarrow>
               if len < min_size then (None, Inl EFAULT) else (None, Inr h)
           | None \<Rightarrow> (Some OFPBRC_BAD_TYPE, Inl EINVAL)))"

text \<open>
  \<open>fwd_control_input\<close> of switch/datapath.c.  This file is written against an earlier
  revision of openflow.h, with other message types; the type is the byte of the header and
  the array \<open>packets[]\<close>, whose indices are the missing \<open>enum\<close> values, is a parameter.
\<close>

definition switch_fwd_control_input ::
  "u8 \<Rightarrow> (nat \<times> handler) option list \<Rightarrow> u8 ofp_header \<Rightarrow> nat \<Rightarrow> errno + handler" where
  "switch_fwd_control_input OFP_VERSION packets' oh len =
    (if oh_version oh \<noteq> OFP_VERSION \<or> unat (oh_type oh) \<ge> length packets'
        \<or> unat (oh_length oh) > len
     then Inl EINVAL
     else (case packets' ! unat (oh_type oh) of
             None \<Rightarrow> Inl ENOSYS
           | Some (min_size, h) \<Rightarrow> if len < min_size then Inl EFAULT else Inr h))"

section \<open>FLOW\_MOD(ADD)\<close>

text \<open>
  The remaining wildcard constants of openflow.h, and \<open>struct ofp_match\<close>: the wildcard word
  and the same ten fields as \<open>struct flow\<close>.
\<close>

record ofp_wildcard_fields =
  OFPFW_ALL :: u32
  OFPFW_NW_SRC_MASK :: u32
  OFPFW_NW_DST_MASK :: u32
  OFPFW_NW_SRC_SHIFT :: nat
  OFPFW_NW_DST_SHIFT :: nat
  OFPFW_NW_SRC_BITS :: nat

record ofp_match =
  om_wildcards :: u32
  om_flow :: flow

text \<open>\<open>make_nw_mask\<close>, \<open>flow_extract_match\<close> and \<open>flow_fill_match\<close> (the same in both variants).\<close>

definition make_nw_mask :: "ofp_wildcard_fields \<Rightarrow> u32 \<Rightarrow> u32" where
  "make_nw_mask F n_wild_bits =
    (let n = unat (n_wild_bits AND (push_bit (OFPFW_NW_SRC_BITS F) 1 - 1))
     in if n < 32 then NOT (push_bit n 1 - 1) else 0)"

definition flow_extract_match ::
  "ofp_flow_wildcards \<Rightarrow> ofp_wildcard_fields \<Rightarrow> ofp_match \<Rightarrow> sw_flow_key" where
  "flow_extract_match W F from =
    (let m = om_flow from;
         w0 = om_wildcards from AND OFPFW_ALL F;
         OFPFW_TP = OFPFW_TP_SRC W OR OFPFW_TP_DST W;
         OFPFW_NW = OFPFW_NW_SRC_MASK F OR OFPFW_NW_DST_MASK F OR OFPFW_NW_PROTO W;
         f0 = m\<lparr>nw_src := 0, nw_dst := 0, nw_proto := 0, tp_src := 0, tp_dst := 0\<rparr>;
         (w, f) =
           (if w0 AND OFPFW_DL_TYPE W \<noteq> 0 then (w0 OR OFPFW_NW OR OFPFW_TP, f0)
            else if dl_type m = ETH_TYPE_IP then
              (let f1 = f0\<lparr>nw_src := nw_src m, nw_dst := nw_dst m, nw_proto := nw_proto m\<rparr>
               in if w0 AND OFPFW_NW_PROTO W \<noteq> 0 then (w0 OR OFPFW_TP, f1)
                  else if nw_proto m = IP_TYPE_TCP \<or> nw_proto m = IP_TYPE_UDP
                       then (w0, f1\<lparr>tp_src := tp_src m, tp_dst := tp_dst m\<rparr>)
                       else (w0 AND NOT OFPFW_TP, f1))
            else (w0 AND NOT (OFPFW_NW OR OFPFW_TP), f0))
     in \<lparr>flow = f, wildcards = w,
         nw_src_mask = make_nw_mask F (drop_bit (OFPFW_NW_SRC_SHIFT F) w),
         nw_dst_mask = make_nw_mask F (drop_bit (OFPFW_NW_DST_SHIFT F) w)\<rparr>)"

definition flow_fill_match :: "sw_flow_key \<Rightarrow> ofp_match" where
  "flow_fill_match from = \<lparr>om_wildcards = wildcards from, om_flow = flow from\<rparr>"

text \<open>
  \<open>struct ofp_flow_mod\<close> with the fields either variant reads (the user-space switch reads
  \<open>max_idle\<close> and \<open>group_id\<close>, the kernel datapath \<open>idle_timeout\<close>, \<open>hard_timeout\<close> and
  \<open>priority\<close>).  \<open>ofm_actions\<close> is the array of the \<open>n_actions\<close> actions that both
  variants count from the length field of the header.  The reserved port numbers are those of
  section 6 of the specification.
\<close>

record ofp_flow_mod =
  ofm_match :: ofp_match
  ofm_command :: u16
  ofm_max_idle :: u16
  ofm_idle_timeout :: u16
  ofm_hard_timeout :: u16
  ofm_priority :: u16
  ofm_buffer_id :: u32
  ofm_group_id :: u32
  ofm_actions :: "ofp_action list"

definition OFPP_TABLE :: u16 where
  "OFPP_TABLE = 0xfff9"

definition OFPP_NONE :: u16 where
  "OFPP_NONE = 0xffff"

definition MAX_ACTIONS :: nat where
  "MAX_ACTIONS = 16"

text \<open>
  The flow entry of the kernel datapath, with the fields \<open>add_flow\<close> of datapath/forward.c
  fills in (prefix \<open>kf_\<close>).  The counters are not bounded here.
\<close>

record k_sw_flow =
  kf_key :: sw_flow_key
  kf_priority :: u16
  kf_idle_timeout :: u16
  kf_hard_timeout :: u16
  kf_used :: ulong
  kf_init_time :: ulong
  kf_byte_count :: nat
  kf_packet_count :: nat
  kf_actions :: "ofp_action list"

text \<open>
  What a call of \<open>add_flow\<close> leaves behind: the value returned (\<open>None\<close> for 0), the chain,
  the buffer cache, the packet given to \<open>flow_used\<close> for the new entry if a buffered packet
  was retrieved, and the calls made by \<open>execute_actions\<close> on that packet.
\<close>

record ('c, 'b, 'e) add_flow_result =
  af_ret :: "errno option"
  af_chain :: 'c
  af_cache :: "'b buffer_cache"
  af_used :: "'b option"
  af_trace :: "'e list"

definition discard_skb :: "'p buffer_cache \<Rightarrow> u32 \<Rightarrow> 'p buffer_cache" where
  "discard_skb st id' =
    (let i = id' AND PKT_BUFFER_MASK; p = buffers st i
     in if cookie p = drop_bit PKT_BUFFER_BITS id'
        then st\<lparr>buffers := (buffers st)(i := p\<lparr>buffer := None\<rparr>)\<rparr>
        else st)"

text \<open>The test of the loop at the head of \<open>add_flow\<close> in datapath/forward.c, for one action.\<close>

definition loops_back :: "ofp_flow_mod \<Rightarrow> ofp_action \<Rightarrow> bool" where
  "loops_back ofm a =
    (is_output a
     \<and> (port a = OFPP_TABLE \<or> port a = OFPP_NONE \<or> port a = in_port (om_flow (ofm_match ofm))))"

text \<open>
  \<open>add_flow\<close> of datapath/forward.c.  Its surroundings are one parameter: the constants of
  openflow.h, the value of \<open>jiffies\<close>, whether \<open>flow_alloc\<close> succeeds, \<open>chain_insert\<close>
  of the kernel's chain.c (not among the sources; it gives an error or the new chain),
  \<open>snap_get_ethertype\<close> and the three skb helpers.  \<open>None\<close> is the read past the end of
  the frame in \<open>flow_extract\<close>.
\<close>

record 'c kernel_env =
  ke_wildcards :: ofp_flow_wildcards
  ke_wildcard_fields :: ofp_wildcard_fields
  ke_jiffies :: ulong
  ke_flow_alloc :: bool
  ke_chain_insert :: "'c \<Rightarrow> k_sw_flow \<Rightarrow> errno + 'c"
  ke_snap_get_ethertype :: "u8 list \<Rightarrow> u16 option"
  ke_skb_ops :: "(u8 list) skb_ops"

definition fwd_add_flow ::
  "'c kernel_env \<Rightarrow> 'c \<Rightarrow> (u8 list) buffer_cache \<Rightarrow> ofp_flow_mod
    \<Rightarrow> ('c, u8 list, (u8 list) kevent) add_flow_result option" where
  "fwd_add_flow E chain' st ofm =
    (let error_path = (\<lambda>e.
           Some \<lparr>af_ret = Some e, af_chain = chain',
                 af_cache = (if ofm_buffer_id ofm \<noteq> - 1 then discard_skb st (ofm_buffer_id ofm)
                             else st),
                 af_used = None, af_trace = []\<rparr>)
     in if list_ex (loops_back ofm) (ofm_actions ofm) then error_path ENOMEM
        else if \<not> ke_flow_alloc E then error_path ENOMEM
        else
          let key = flow_extract_match (ke_wildcards E) (ke_wildcard_fields E) (ofm_match ofm);
              fl = \<lparr>kf_key = key,
                    kf_priority = (if wildcards key \<noteq> 0 then ofm_priority ofm else - 1),
                    kf_idle_timeout = ofm_idle_timeout ofm,
                    kf_hard_timeout = ofm_hard_timeout ofm,
                    kf_used = ke_jiffies E, kf_init_time = ke_jiffies E,
                    kf_byte_count = 0, kf_packet_count = 0,
                    kf_actions = ofm_actions ofm\<rparr>
          in (case ke_chain_insert E chain' fl of
                Inl e \<Rightarrow> error_path e
              | Inr chain'' \<Rightarrow>
                  if ofm_buffer_id ofm \<noteq> - 1 then
                    (case retrieve_skb st (ofm_buffer_id ofm) of
                       (st', Some skb) \<Rightarrow>
                         (case kernel_flow_extract (ke_snap_get_ethertype E) skb
                                 (in_port (om_flow (ofm_match ofm))) of
                            None \<Rightarrow> None
                          | Some (skb_key, frag) \<Rightarrow>
                              Some \<lparr>af_ret = None, af_chain = chain'', af_cache = st',
                                    af_used = Some skb,
                                    af_trace = fwd_execute_actions (ke_skb_ops E) skb skb_key
                                                 (ofm_actions ofm) False\<rparr>)
                     | (st', None) \<Rightarrow>
                         Some \<lparr>af_ret = Some ESRCH, af_chain = chain'', af_cache = st',
                               af_used = None, af_trace = []\<rparr>)
                  else Some \<lparr>af_ret = None, af_chain = chain'', af_cache = st,
                             af_used = None, af_trace = []\<rparr>))"

text \<open>
  \<open>add_flow\<close> of switch/datapath.c.  \<open>se_malloc\<close> is the content of the memory that
  \<open>flow_alloc\<close> returns, which the function overwrites field by field.
\<close>

record 't switch_env =
  se_wildcards :: ofp_flow_wildcards
  se_wildcard_fields :: ofp_wildcard_fields
  se_now :: int
  se_flow_alloc :: bool
  se_malloc :: sw_flow
  se_table_ops :: "('t, sw_flow) sw_table_ops"
  se_rewrite :: "sw_flow_key \<Rightarrow> ofp_action \<Rightarrow> u8 list \<Rightarrow> u8 list"

definition add_flow ::
  "'t switch_env \<Rightarrow> 't datapath \<Rightarrow> (u8 list) buffer_cache \<Rightarrow> ofp_flow_mod
    \<Rightarrow> ('t list, u8 list, (u8 list) event) add_flow_result option" where
  "add_flow E dp st ofm =
    (let n_acts = length (ofm_actions ofm);
         error_path = (\<lambda>e.
           Some \<lparr>af_ret = Some e, af_chain = chain dp,
                 af_cache = (if ofm_buffer_id ofm \<noteq> - 1
                             then discard_buffer st (ofm_buffer_id ofm) else st),
                 af_used = None, af_trace = []\<rparr>)
     in if n_acts > MAX_ACTIONS then error_path E2BIG
        else if \<not> se_flow_alloc E then error_path ENOMEM
        else
          let fl = (se_malloc E)
                    \<lparr>sf_key := flow_extract_match (se_wildcards E) (se_wildcard_fields E)
                                 (ofm_match ofm),
                     sf_group_id := ofm_group_id ofm,
                     sf_max_idle := ofm_max_idle ofm,
                     sf_timeout := se_now E + uint (ofm_max_idle ofm),
                     sf_created := se_now E,
                     sf_byte_count := 0, sf_packet_count := 0,
                     sf_actions := ofm_actions ofm\<rparr>
          in (case chain_insert (se_table_ops E) (chain dp) fl of
                None \<Rightarrow> error_path ENOBUFS
              | Some chain'' \<Rightarrow>
                  if ofm_buffer_id ofm \<noteq> UINT32_MAX then
                    (case retrieve_buffer st (ofm_buffer_id ofm) of
                       (st', Some b) \<Rightarrow>
                         (case flow_extract b (in_port (om_flow (ofm_match ofm))) of
                            None \<Rightarrow> None
                          | Some f \<Rightarrow>
                              Some \<lparr>af_ret = None, af_chain = chain'', af_cache = st',
                                    af_used = Some b,
                                    af_trace = execute_actions (se_rewrite E) b
                                       (uint (in_port (om_flow (ofm_match ofm))))
                                       \<lparr>flow = f, wildcards = 0, nw_src_mask = 0,
                                        nw_dst_mask = 0\<rparr>
                                       (ofm_actions ofm)\<rparr>)
                     | (st', None) \<Rightarrow>
                         Some \<lparr>af_ret = Some ESRCH, af_chain = chain'', af_cache = st',
                               af_used = None, af_trace = []\<rparr>)
                  else Some \<lparr>af_ret = None, af_chain = chain'', af_cache = st,
                             af_used = None, af_trace = []\<rparr>))"

section \<open>The timeout sweep\<close>

text \<open>
  \<open>flow_timeout\<close> of datapath/flow.c.  It returns the reason of the expiry, or \<open>-1\<close> for a
  flow that has not expired.  The reasons are the constants of
  \<open>enum ofp_flow_expired_reason\<close>, declared in openflow.h, which is not among the sources:
  their values are the parameter \<open>code\<close>.  \<open>HZ\<close> is the tick rate of the kernel
  configuration (at most 1000, so that the \<open>int\<close> product with the 16-bit timeout does not
  overflow) and \<open>jiffies\<close> the tick counter.
\<close>

definition kernel_flow_timeout ::
  "(ofp_flow_expired_reason \<Rightarrow> int) \<Rightarrow> nat \<Rightarrow> ulong \<Rightarrow> k_sw_flow \<Rightarrow> int" where
  "kernel_flow_timeout code HZ jiffies fl =
    (if kf_idle_timeout fl \<noteq> OFP_FLOW_PERMANENT
        \<and> time_after jiffies (kf_used fl + of_nat (unat (kf_idle_timeout fl) * HZ))
     then code OFPER_IDLE_TIMEOUT
     else if kf_hard_timeout fl \<noteq> OFP_FLOW_PERMANENT
        \<and> time_after jiffies (kf_init_time fl + of_nat (unat (kf_hard_timeout fl) * HZ))
     then code OFPER_HARD_TIMEOUT
     else - 1)"

text \<open>
  \<open>struct sw_table_hash\<close> and \<open>table_hash_timeout\<close> of datapath/table-hash.c.  The array
  \<open>buckets\<close> has \<open>bucket_mask + 1\<close> entries.  Of the datapath only \<open>hello_flags\<close> is read.
  The sweep tests the \<open>int\<close> result of \<open>flow_timeout\<close> as a truth value, that is for being
  nonzero.  The surroundings of the sweep are one parameter: the flag
  \<open>OFP_CHELLO_SEND_FLOW_EXP\<close> of openflow.h, the values of the expiry reasons, \<open>HZ\<close>,
  \<open>jiffies\<close>, and \<open>flow_del\<close>, an inline function of the missing flow.h that tells whether
  this caller is the one that deletes the flow.  \<open>Flow_expired fl\<close> is the call
  \<open>dp_send_flow_expired(dp, fl)\<close>.
\<close>

record sw_table_hash =
  n_flows :: int
  bucket_mask :: nat
  buckets :: "k_sw_flow option list"

record k_datapath =
  hello_flags :: u32

datatype k_message = Flow_expired k_sw_flow

record sweep_env =
  sw_send_flow_exp :: u32
  sw_reason_code :: "ofp_flow_expired_reason \<Rightarrow> int"
  sw_HZ :: nat
  sw_jiffies :: ulong
  sw_flow_del :: "k_sw_flow \<Rightarrow> bool"

definition do_delete :: "sweep_env \<Rightarrow> k_sw_flow \<Rightarrow> k_sw_flow option \<times> int" where
  "do_delete E fl = (if sw_flow_del E fl then (None, 1) else (Some fl, 0))"

fun table_hash_timeout_loop ::
  "sweep_env \<Rightarrow> k_datapath \<Rightarrow> k_sw_flow option list
    \<Rightarrow> k_sw_flow option list \<times> int \<times> k_message list" where
  "table_hash_timeout_loop E dp [] = ([], 0, [])"
| "table_hash_timeout_loop E dp (bucket # rest) =
    (let (rest', count, msgs) = table_hash_timeout_loop E dp rest
     in (case bucket of
           None \<Rightarrow> (None # rest', count, msgs)
         | Some fl \<Rightarrow>
             if kernel_flow_timeout (sw_reason_code E) (sw_HZ E) (sw_jiffies E) fl \<noteq> 0 then
               (let (bucket', c) = do_delete E fl
                in (bucket' # rest', c + count,
                    (if hello_flags dp AND sw_send_flow_exp E \<noteq> 0 then [Flow_expired fl]
                     else []) @ msgs))
             else (Some fl # rest', count, msgs)))"

definition table_hash_timeout ::
  "sweep_env \<Rightarrow> k_datapath \<Rightarrow> sw_table_hash \<Rightarrow> sw_table_hash \<times> int \<times> k_message list" where
  "table_hash_timeout E dp th =
    (let (bs, count, msgs) =
           table_hash_timeout_loop E dp (take (bucket_mask th + 1) (buckets th))
     in (th\<lparr>buckets := bs @ drop (bucket_mask th + 1) (buckets th),
            n_flows := (if count \<noteq> 0 then n_flows th - count else n_flows th)\<rparr>, count, msgs))"

text \<open>
  The flows of the table for which the sweep takes the branch of \<open>flow_timeout\<close>, and
  those among them that it reaps, that is which this caller deletes.
\<close>

definition swept :: "sweep_env \<Rightarrow> sw_table_hash \<Rightarrow> k_sw_flow list" where
  "swept E th =
    [fl. Some fl \<leftarrow> take (bucket_mask th + 1) (buckets th),
         kernel_flow_timeout (sw_reason_code E) (sw_HZ E) (sw_jiffies E) fl \<noteq> 0]"

definition reaped :: "sweep_env \<Rightarrow> sw_table_hash \<Rightarrow> k_sw_flow list" where
  "reaped E th = filter (sw_flow_del E) (swept E th)"

text \<open>
  \<open>send_flow_expired\<close> of switch/datapath.c, as the message it sends (after the header), and
  the sweep at the head of \<open>dp_run\<close>.
\<close>

record ofp_flow_expired =
  ofe_match :: ofp_match
  ofe_duration :: u32
  ofe_packet_count :: nat
  ofe_byte_count :: nat

definition send_flow_expired :: "'t datapath \<Rightarrow> sw_flow \<Rightarrow> ofp_flow_expired" where
  "send_flow_expired dp fl =
    \<lparr>ofe_match = flow_fill_match (sf_key fl),
     ofe_duration = of_int (sf_timeout fl - uint (sf_max_idle fl) - sf_created fl),
     ofe_packet_count = sf_packet_count fl,
     ofe_byte_count = sf_byte_count fl\<rparr>"

definition dp_run_timeout ::
  "('t, sw_flow) sw_table_ops \<Rightarrow> int \<Rightarrow> 't datapath \<Rightarrow> 't datapath \<times> ofp_flow_expired list" where
  "dp_run_timeout ops now dp =
    (if now \<noteq> last_timeout dp then
       (let (chain', deleted) = chain_timeout ops (chain dp) []
        in (dp\<lparr>chain := chain', last_timeout := now\<rparr>, map (send_flow_expired dp) deleted))
     else (dp, []))"

text \<open>Example values for the closed instances below.\<close>

definition example_wildcards :: ofp_flow_wildcards where
  "example_wildcards =
    \<lparr>OFPFW_IN_PORT = 1, OFPFW_DL_VLAN = 2, OFPFW_DL_SRC = 4, OFPFW_DL_DST = 8,
     OFPFW_DL_TYPE = 16, OFPFW_NW_PROTO = 32, OFPFW_TP_SRC = 64, OFPFW_TP_DST = 128\<rparr>"

definition example_flow :: flow where
  "example_flow =
    \<lparr>in_port = 1, dl_vlan = 0xFFFF, dl_src = [0, 1, 2, 3, 4, 5], dl_dst = [0, 1, 2, 3, 4, 6],
     dl_type = 0x0800, nw_src = 0x0A000001, nw_dst = 0x0A000002, nw_proto = 6,
     tp_src = 1234, tp_dst = 80\<rparr>"

definition example_key_a :: sw_flow_key where
  "example_key_a =
    \<lparr>flow = example_flow, wildcards = 64, nw_src_mask = 0xFFFFFF00, nw_dst_mask = 0xFFFFFFFF\<rparr>"

definition example_key_b :: sw_flow_key where
  "example_key_b =
    \<lparr>flow = example_flow\<lparr>in_port := 2, tp_src := 99, nw_src := 0x0A0000FE\<rparr>,
     wildcards = 1, nw_src_mask = 0xFFFFFFFF, nw_dst_mask = 0xFFFFFFFF\<rparr>"

text \<open>
  Values of the remaining parameters for the closed instances: the message sizes (8 for the
  header and 12 for SET\_CONFIG are those of the dispatch table of section 4.7 of the
  specification; no instance below reads the other three), the wildcard constants with the IPv4
  prefix fields in bits 8 to 19, a flow table entry of each variant, and the surroundings of
  the two \<open>add_flow\<close>.  No instance below reaches a rewrite action, so the rewriting
  functions leave the bytes as they are.
\<close>

definition example_sizes :: ofp_sizes where
  "example_sizes =
    \<lparr>sizeof_ofp_header = 8, sizeof_ofp_switch_config = 12, sizeof_ofp_packet_out = 16,
     sizeof_ofp_flow_mod = 72, sizeof_ofp_port_mod = 44\<rparr>"

definition example_wildcard_fields :: ofp_wildcard_fields where
  "example_wildcard_fields =
    \<lparr>OFPFW_ALL = 0xFFFFF, OFPFW_NW_SRC_MASK = 0x3F00, OFPFW_NW_DST_MASK = 0xFC000,
     OFPFW_NW_SRC_SHIFT = 8, OFPFW_NW_DST_SHIFT = 14, OFPFW_NW_SRC_BITS = 6\<rparr>"

definition example_exact_key :: sw_flow_key where
  "example_exact_key =
    \<lparr>flow = example_flow, wildcards = 0, nw_src_mask = 0xFFFFFFFF, nw_dst_mask = 0xFFFFFFFF\<rparr>"

definition example_sw_flow :: sw_flow where
  "example_sw_flow =
    \<lparr>sf_key = example_exact_key, sf_group_id = 0, sf_max_idle = 5, sf_created = 100,
     sf_timeout = 105, sf_used = 100, sf_idle_timeout = 5, sf_hard_timeout = 0,
     sf_packet_count = 3, sf_byte_count = 180, sf_actions = [OFPAT_OUTPUT 2 0]\<rparr>"

definition example_datapath :: "(sw_flow list) datapath" where
  "example_datapath =
    \<lparr>last_timeout = 199, chain = [[example_sw_flow]],
     config = \<lparr>flags = 0, miss_send_len = 16\<rparr>\<rparr>"

definition no_rewrite :: "sw_flow_key \<Rightarrow> ofp_action \<Rightarrow> u8 list \<Rightarrow> u8 list" where
  "no_rewrite key a b = b"

definition no_rewrite_skb_ops :: "(u8 list) skb_ops" where
  "no_rewrite_skb_ops =
    \<lparr>skb_clone = Some, make_writable = Some,
     execute_setter = (\<lambda>skb ep key a. Some (skb, key))\<rparr>"

definition looping_flow_mod :: ofp_flow_mod where
  "looping_flow_mod =
    \<lparr>ofm_match = \<lparr>om_wildcards = 0, om_flow = example_flow\<rparr>, ofm_command = 0,
     ofm_max_idle = 60, ofm_idle_timeout = 60, ofm_hard_timeout = 0, ofm_priority = 0,
     ofm_buffer_id = 0xFFFFFFFF, ofm_group_id = 0,
     ofm_actions = [OFPAT_OUTPUT OFPP_TABLE 0]\<rparr>"

definition list_chain_insert :: "k_sw_flow list \<Rightarrow> k_sw_flow \<Rightarrow> errno + k_sw_flow list" where
  "list_chain_insert c fl = Inr (c @ [fl])"

definition example_kernel_env :: "(k_sw_flow list) kernel_env" where
  "example_kernel_env =
    \<lparr>ke_wildcards = example_wildcards, ke_wildcard_fields = example_wildcard_fields,
     ke_jiffies = 1000, ke_flow_alloc = True, ke_chain_insert = list_chain_insert,
     ke_snap_get_ethertype = (\<lambda>b. None), ke_skb_ops = no_rewrite_skb_ops\<rparr>"

definition example_switch_env :: "(sw_flow list) switch_env" where
  "example_switch_env =
    \<lparr>se_wildcards = example_wildcards, se_wildcard_fields = example_wildcard_fields,
     se_now = 200, se_flow_alloc = True, se_malloc = example_sw_flow,
     se_table_ops = table_linear_ops example_wildcards 100 200, se_rewrite = no_rewrite\<rparr>"

text \<open>
  For the sweep of the hash table: an entry made at jiffies 100 with a hard timeout of 5
  seconds and no idle timeout, a table of two buckets that holds it, and a sweep at
  \<open>jiffies = 1000\<close> with \<open>HZ = 100\<close>, the flag in bit 0, the reasons numbered in the
  order of their declaration, and a \<open>flow_del\<close> that this caller always wins.
\<close>

definition example_k_flow :: k_sw_flow where
  "example_k_flow =
    \<lparr>kf_key = example_exact_key, kf_priority = 0xFFFF, kf_idle_timeout = 0,
     kf_hard_timeout = 5, kf_used = 100, kf_init_time = 100, kf_byte_count = 180,
     kf_packet_count = 3, kf_actions = [OFPAT_OUTPUT 2 0]\<rparr>"

definition example_table_hash :: sw_table_hash where
  "example_table_hash = \<lparr>n_flows = 1, bucket_mask = 1, buckets = [Some example_k_flow, None]\<rparr>"

definition example_reason_code :: "ofp_flow_expired_reason \<Rightarrow> int" where
  "example_reason_code r = (case r of OFPER_IDLE_TIMEOUT \<Rightarrow> 0 | OFPER_HARD_TIMEOUT \<Rightarrow> 1)"

definition example_flow_del :: "k_sw_flow \<Rightarrow> bool" where
  "example_flow_del fl = True"

definition example_sweep_env :: sweep_env where
  "example_sweep_env =
    \<lparr>sw_send_flow_exp = 1, sw_reason_code = example_reason_code, sw_HZ = 100,
     sw_jiffies = 1000, sw_flow_del = example_flow_del\<rparr>"


section \<open>Results about the match predicates\<close>

lemma flow_fields_match_sym:
  "flow_fields_match W a b w sm dm = flow_fields_match W b a w sm dm"
  unfolding flow_fields_match_def
  by (simp add: eq_commute [of "in_port a"] eq_commute [of "dl_vlan a"]
      eq_commute [of "dl_src a"] eq_commute [of "dl_dst a"] eq_commute [of "dl_type a"]
      eq_commute [of "nw_proto a"] eq_commute [of "tp_src a"] eq_commute [of "tp_dst a"]
      xor.commute [of "nw_src a"] xor.commute [of "nw_dst a"])

text \<open>
  C9.  The two-sided match predicate is symmetric in its two keys, in the kernel datapath
  (\<open>flow_matches_2wild\<close> of datapath/flow.c) and in the user-space switch
  (\<open>flow_matches_2wild\<close> of switch/switch-flow.c), whatever the wildcard sets and IPv4 masks
  the two keys carry and whatever the values of the wildcard bits.
\<close>

theorem flow_matches_2wild_symmetric:
  "flow_matches_2wild W a b = flow_matches_2wild W b a
   \<and> switch_flow_matches_2wild W a b = switch_flow_matches_2wild W b a"
  unfolding flow_matches_2wild_def switch_flow_matches_2wild_def switch_flow_fields_match_def
  by (simp add: flow_fields_match_sym [of W "flow a"] or.commute [of "wildcards a"]
      and.commute [of "nw_src_mask a"] and.commute [of "nw_dst_mask a"])

theorem flow_matches_2wild_symmetric_witness:
  "flow_matches_2wild example_wildcards example_key_a example_key_b
   \<and> flow_matches_2wild example_wildcards example_key_b example_key_a
   \<and> switch_flow_matches_2wild example_wildcards example_key_a example_key_b
   \<and> switch_flow_matches_2wild example_wildcards example_key_b example_key_a"
proof -
  have "flow_matches_2wild example_wildcards example_key_a example_key_b"
    by (simp add: flow_matches_2wild_def flow_fields_match_def example_wildcards_def
        example_key_a_def example_key_b_def example_flow_def)
  moreover have "switch_flow_matches_2wild example_wildcards example_key_a example_key_b"
    by (simp add: switch_flow_matches_2wild_def switch_flow_fields_match_def
        flow_fields_match_def example_wildcards_def example_key_a_def example_key_b_def
        example_flow_def)
  ultimately show ?thesis
    using flow_matches_2wild_symmetric [of example_wildcards example_key_a example_key_b]
    by simp
qed

section \<open>Results about the buffer cache\<close>

lemma PKT_BUFFER_MASK_mask: "PKT_BUFFER_MASK = mask 8"
  by (simp add: PKT_BUFFER_MASK_def N_PKT_BUFFERS_def PKT_BUFFER_BITS_def mask_eq_exp_minus_1)

lemma id_slot:
  fixes x c :: u32
  shows "((x AND mask 8) OR push_bit 8 c) AND mask 8 = x AND mask 8"
  by (rule bit_eqI) (auto simp add: bit_simps)

lemma id_cookie_mask:
  fixes x c :: u32
  shows "drop_bit 8 ((x AND mask 8) OR push_bit 8 (c AND mask 24)) = c AND mask 24"
  by (rule bit_eqI) (auto simp add: bit_simps)

lemma id_cookie:
  fixes x c :: u32
  assumes "c < 2 ^ 24"
  shows "drop_bit 8 ((x AND mask 8) OR push_bit 8 c) = c"
  using id_cookie_mask [of x c] less_mask_eq [OF assms] by simp

lemma cookie_bound:
  fixes c :: u32
  shows "(if c + 1 \<ge> push_bit PKT_COOKIE_BITS 1 - 1 then 0 else c + 1) < 2 ^ 24"
  by (simp add: PKT_COOKIE_BITS_def PKT_BUFFER_BITS_def word_less_nat_alt word_le_nat_alt)

lemma save_buffer_ok:
  assumes "save_buffer now st b = (st1, i)" "i \<noteq> UINT32_MAX"
  shows "\<exists>c. c < 2 ^ 24 \<and> i = ((buffer_idx st + 1) AND mask 8) OR push_bit 8 c
      \<and> buffers st1 ((buffer_idx st + 1) AND mask 8)
          = \<lparr>buffer = Some b, cookie = c, timeout = now + OVERWRITE_SECS\<rparr>"
  using assms cookie_bound [of "cookie (buffers st ((buffer_idx st + 1) AND mask 8))"]
  by (auto simp add: save_buffer_def Let_def PKT_BUFFER_MASK_mask PKT_BUFFER_BITS_def
      split: if_splits)

lemma retrieve_buffer_hit:
  assumes "i AND PKT_BUFFER_MASK = s" "drop_bit PKT_BUFFER_BITS i = cookie (buffers st1 s)"
  shows "snd (retrieve_buffer st1 i) = buffer (buffers st1 s)"
    and "buffer (buffers (fst (retrieve_buffer st1 i)) s) = None"
  using assms by (simp_all add: retrieve_buffer_def Let_def)

lemma retrieve_buffer_empty:
  assumes "buffer (buffers st (i AND PKT_BUFFER_MASK)) = None"
  shows "snd (retrieve_buffer st i) = None"
  using assms by (simp add: retrieve_buffer_def Let_def)

lemma cache_step_keeps_empty:
  assumes "buffer (buffers st s) = None" "no_save_to s st [x]"
  shows "buffer (buffers (cache_step st x) s) = None"
  using assms
  by (cases x) (auto simp add: save_buffer_def retrieve_buffer_def discard_buffer_def Let_def)

lemma cache_run_keeps_empty:
  assumes "buffer (buffers st s) = None" "no_save_to s st ops"
  shows "buffer (buffers (foldl cache_step st ops) s) = None"
  using assms
proof (induction ops arbitrary: st)
  case Nil
  then show ?case by simp
next
  case (Cons x ops)
  have one: "no_save_to s st [x]" and rest: "no_save_to s (cache_step st x) ops"
    using Cons.prems(2) by (cases x; simp)+
  have "buffer (buffers (cache_step st x) s) = None"
    using cache_step_keeps_empty [OF Cons.prems(1) one] .
  then show ?case using Cons.IH rest by simp
qed

lemma saves_Suc:
  "saves now p (Suc n) = fst (save_buffer now (saves now p n) p)"
proof -
  have "replicate (Suc n) p = replicate n p @ [p]"
    by (simp add: replicate_append_same)
  then show ?thesis
    unfolding saves_def by (simp del: replicate_Suc)
qed

lemma of_nat_slot:
  assumes "n < 256"
  shows "(of_nat n :: u32) AND PKT_BUFFER_MASK = of_nat n"
proof -
  have "(of_nat n :: u32) < 2 ^ 8"
    using assms by (simp add: word_less_nat_alt unat_of_nat)
  then show ?thesis
    by (simp add: PKT_BUFFER_MASK_mask less_mask_eq)
qed

lemma of_nat_slot_inj:
  assumes "i < 256" "j < 256" "(of_nat i :: u32) = of_nat j"
  shows "i = j"
proof -
  have "unat (of_nat i :: u32) = unat (of_nat j :: u32)"
    using assms(3) by simp
  then show ?thesis
    using assms(1,2) by (simp add: unat_of_nat)
qed

text \<open>
  The cache after \<open>n \<le> 255\<close> saves within one second: the slots 1 to \<open>n\<close> are taken,
  each with cookie 1 and a timeout one second ahead.
\<close>

lemma saves_state:
  assumes "n \<le> 255"
  shows "buffer_idx (saves now p n) = of_nat n
    \<and> (\<forall>i. i < 256 \<longrightarrow> buffers (saves now p n) (of_nat i) =
          (if 1 \<le> i \<and> i \<le> n
           then \<lparr>buffer = Some p, cookie = 1, timeout = now + OVERWRITE_SECS\<rparr>
           else \<lparr>buffer = None, cookie = 0, timeout = 0\<rparr>))"
  using assms
proof (induction n)
  case 0
  then show ?case
    by (simp add: saves_def buffer_cache_init_def)
next
  case (Suc n)
  then have IH: "buffer_idx (saves now p n) = of_nat n"
    "\<And>i. i < 256 \<Longrightarrow> buffers (saves now p n) (of_nat i) =
          (if 1 \<le> i \<and> i \<le> n
           then \<lparr>buffer = Some p, cookie = 1, timeout = now + OVERWRITE_SECS\<rparr>
           else \<lparr>buffer = None, cookie = 0, timeout = 0\<rparr>)"
    and n: "Suc n < 256"
    by simp_all
  have idx: "(buffer_idx (saves now p n) + 1) AND PKT_BUFFER_MASK = of_nat (Suc n)"
  proof -
    have "(of_nat n + 1 :: u32) = of_nat (Suc n)"
      by simp
    then show ?thesis
      using of_nat_slot [OF n] by (simp only: IH(1))
  qed
  have empty: "buffers (saves now p n) (of_nat (Suc n))
      = \<lparr>buffer = None, cookie = 0, timeout = 0\<rparr>"
    using IH(2) [OF n] by simp
  have c: "\<not> (push_bit PKT_COOKIE_BITS 1 - 1 \<le> (1 :: u32))"
    by (simp add: PKT_COOKIE_BITS_def PKT_BUFFER_BITS_def word_le_nat_alt)
  have st: "saves now p (Suc n) = (saves now p n)\<lparr>buffer_idx := of_nat (Suc n),
      buffers := (buffers (saves now p n))(of_nat (Suc n) :=
         \<lparr>buffer = Some p, cookie = 1, timeout = now + OVERWRITE_SECS\<rparr>)\<rparr>"
    unfolding saves_Suc save_buffer_def Let_def idx empty using c by simp
  show ?case
  proof (intro conjI allI impI)
    show "buffer_idx (saves now p (Suc n)) = of_nat (Suc n)"
      by (simp add: st)
  next
    fix i :: nat
    assume i: "i < 256"
    show "buffers (saves now p (Suc n)) (of_nat i) =
          (if 1 \<le> i \<and> i \<le> Suc n
           then \<lparr>buffer = Some p, cookie = 1, timeout = now + OVERWRITE_SECS\<rparr>
           else \<lparr>buffer = None, cookie = 0, timeout = 0\<rparr>)"
    proof (cases "i = Suc n")
      case True
      then show ?thesis
        by (simp add: st)
    next
      case False
      then have "(of_nat i :: u32) \<noteq> of_nat (Suc n)"
        using of_nat_slot_inj [OF i n] by blast
      then show ?thesis
        using IH(2) [OF i] False by (simp add: st)
    qed
  qed
qed

text \<open>After 256 saves within one second the index is back at slot 0 and slot 1 is taken.\<close>

lemma saves_256:
  "buffer_idx (saves now p 256) = 0
   \<and> buffers (saves now p 256) 1
       = \<lparr>buffer = Some p, cookie = 1, timeout = now + OVERWRITE_SECS\<rparr>"
proof -
  have s: "buffer_idx (saves now p 255) = 255"
    "buffers (saves now p 255) 0 = \<lparr>buffer = None, cookie = 0, timeout = 0\<rparr>"
    "buffers (saves now p 255) 1
       = \<lparr>buffer = Some p, cookie = 1, timeout = now + OVERWRITE_SECS\<rparr>"
  proof -
    have a: "buffer_idx (saves now p 255) = of_nat 255"
      and b: "\<forall>i. i < 256 \<longrightarrow> buffers (saves now p 255) (of_nat i) =
          (if 1 \<le> i \<and> i \<le> 255
           then \<lparr>buffer = Some p, cookie = 1, timeout = now + OVERWRITE_SECS\<rparr>
           else \<lparr>buffer = None, cookie = 0, timeout = 0\<rparr>)"
      using saves_state [of 255 now p] by simp_all
    show "buffer_idx (saves now p 255) = 255"
      using a by simp
    show "buffers (saves now p 255) 0 = \<lparr>buffer = None, cookie = 0, timeout = 0\<rparr>"
      using b [rule_format, of 0] by simp
    show "buffers (saves now p 255) 1
        = \<lparr>buffer = Some p, cookie = 1, timeout = now + OVERWRITE_SECS\<rparr>"
      using b [rule_format, of 1] by simp
  qed
  have e: "(256 :: nat) = Suc 255"
    by simp
  have i: "((255 :: u32) + 1) AND PKT_BUFFER_MASK = 0"
    by (simp add: PKT_BUFFER_MASK_def N_PKT_BUFFERS_def PKT_BUFFER_BITS_def)
  have c: "\<not> (push_bit PKT_COOKIE_BITS 1 - 1 \<le> (1 :: u32))"
    by (simp add: PKT_COOKIE_BITS_def PKT_BUFFER_BITS_def word_le_nat_alt)
  show ?thesis
    unfolding e saves_Suc save_buffer_def Let_def s i using c by (simp add: s)
qed

lemma save_buffer_after_256:
  "save_buffer now (saves now p 256) b = ((saves now p 256)\<lparr>buffer_idx := 1\<rparr>, UINT32_MAX)"
  using saves_256 [of now p]
  by (simp add: save_buffer_def Let_def PKT_BUFFER_MASK_def N_PKT_BUFFERS_def
      PKT_BUFFER_BITS_def OVERWRITE_SECS_def)

lemma saves_add:
  "foldl cache_step (saves now p m) (replicate n (Save now p)) = saves now p (m + n)"
proof (induction n)
  case 0
  then show ?case by simp
next
  case (Suc n)
  have "replicate (Suc n) (Save now p) = replicate n (Save now p) @ [Save now p]"
    by (simp add: replicate_append_same)
  then show ?case
    using Suc by (simp add: saves_Suc del: replicate_Suc)
qed

lemma id_determined:
  fixes i j :: u32
  assumes "j AND PKT_BUFFER_MASK = i AND PKT_BUFFER_MASK"
    and "drop_bit PKT_BUFFER_BITS j = drop_bit PKT_BUFFER_BITS i"
  shows "j = i"
proof -
  have "take_bit 8 j = take_bit 8 i"
    using assms(1) by (simp add: PKT_BUFFER_MASK_mask take_bit_eq_mask)
  moreover have "drop_bit 8 j = drop_bit 8 i"
    using assms(2) by (simp add: PKT_BUFFER_BITS_def)
  ultimately show ?thesis
    by (metis bits_ident)
qed

text \<open>
  A call leaves the slot of a buffer id \<open>i\<close> as it is when it is neither a save that
  advances the ring to that slot nor a retrieve or discard of \<open>i\<close> itself: another id that
  names the same slot carries another cookie.
\<close>

lemma cache_step_keeps_slot:
  assumes "drop_bit PKT_BUFFER_BITS i = cookie (buffers st (i AND PKT_BUFFER_MASK))"
    and "no_save_to (i AND PKT_BUFFER_MASK) st [x]"
    and "x \<noteq> Retrieve i" and "x \<noteq> Discard i"
  shows "buffers (cache_step st x) (i AND PKT_BUFFER_MASK) = buffers st (i AND PKT_BUFFER_MASK)"
proof (cases x)
  case (Save now b)
  then show ?thesis
    using assms(2) by (auto simp add: save_buffer_def Let_def)
next
  case (Retrieve j)
  then have ne: "j \<noteq> i" using assms(3) by simp
  show ?thesis
  proof (cases "j AND PKT_BUFFER_MASK = i AND PKT_BUFFER_MASK")
    case True
    then have "drop_bit PKT_BUFFER_BITS j \<noteq> drop_bit PKT_BUFFER_BITS i"
      using id_determined ne by blast
    then show ?thesis
      using Retrieve True assms(1) by (simp add: retrieve_buffer_def Let_def)
  next
    case False
    then show ?thesis
      using Retrieve by (simp add: retrieve_buffer_def Let_def)
  qed
next
  case (Discard j)
  then have ne: "j \<noteq> i" using assms(4) by simp
  show ?thesis
  proof (cases "j AND PKT_BUFFER_MASK = i AND PKT_BUFFER_MASK")
    case True
    then have "drop_bit PKT_BUFFER_BITS j \<noteq> drop_bit PKT_BUFFER_BITS i"
      using id_determined ne by blast
    then show ?thesis
      using Discard True assms(1) by (simp add: discard_buffer_def Let_def)
  next
    case False
    then show ?thesis
      using Discard by (simp add: discard_buffer_def Let_def)
  qed
qed

lemma cache_run_keeps_slot:
  assumes "drop_bit PKT_BUFFER_BITS i = cookie (buffers st (i AND PKT_BUFFER_MASK))"
    and "no_save_to (i AND PKT_BUFFER_MASK) st pre"
    and "Retrieve i \<notin> set pre" and "Discard i \<notin> set pre"
  shows "buffers (foldl cache_step st pre) (i AND PKT_BUFFER_MASK)
      = buffers st (i AND PKT_BUFFER_MASK)"
  using assms
proof (induction pre arbitrary: st)
  case Nil
  then show ?case by simp
next
  case (Cons x pre)
  have one: "no_save_to (i AND PKT_BUFFER_MASK) st [x]"
    and rest: "no_save_to (i AND PKT_BUFFER_MASK) (cache_step st x) pre"
    using Cons.prems(2) by (cases x; simp)+
  have x: "x \<noteq> Retrieve i" "x \<noteq> Discard i"
    using Cons.prems(3,4) by auto
  have k: "buffers (cache_step st x) (i AND PKT_BUFFER_MASK) = buffers st (i AND PKT_BUFFER_MASK)"
    using cache_step_keeps_slot [OF Cons.prems(1) one x] .
  have "buffers (foldl cache_step (cache_step st x) pre) (i AND PKT_BUFFER_MASK)
      = buffers (cache_step st x) (i AND PKT_BUFFER_MASK)"
    using Cons.IH [of "cache_step st x"] Cons.prems(1,3,4) rest k by simp
  then show ?case using k by simp
qed

text \<open>
  C6 (as amended).  When \<open>save_buffer\<close> succeeds (its result is not the failure value
  \<open>UINT32_MAX\<close>), the first \<open>retrieve_buffer\<close> with the returned id gives back the saved
  packet and leaves the slot empty, provided that between the save and that retrieve no save
  has advanced the ring to the slot and the id has not been discarded; the calls in between
  may be any other saves, retrieves and discards.  A second retrieve with the same id gives
  nothing, immediately or after any sequence of saves, retrieves and discards in which no save
  lands on that slot.  The kernel's \<open>retrieve_skb\<close> behaves in the same way.
\<close>

theorem buffer_retrieved_once:
  assumes "save_buffer now st b = (st1, i)" and "i \<noteq> UINT32_MAX"
    and "no_save_to (i AND PKT_BUFFER_MASK) st1 pre"
    and "Retrieve i \<notin> set pre" and "Discard i \<notin> set pre"
  shows "snd (retrieve_buffer (foldl cache_step st1 pre) i) = Some b
    \<and> buffer (buffers (fst (retrieve_buffer (foldl cache_step st1 pre) i))
         (i AND PKT_BUFFER_MASK)) = None
    \<and> snd (retrieve_buffer (fst (retrieve_buffer (foldl cache_step st1 pre) i)) i) = None
    \<and> (no_save_to (i AND PKT_BUFFER_MASK)
          (fst (retrieve_buffer (foldl cache_step st1 pre) i)) ops \<longrightarrow>
         snd (retrieve_buffer
               (foldl cache_step (fst (retrieve_buffer (foldl cache_step st1 pre) i)) ops) i)
           = None)
    \<and> snd (retrieve_skb (foldl cache_step st1 pre) i) = Some b
    \<and> snd (retrieve_skb (fst (retrieve_skb (foldl cache_step st1 pre) i)) i) = None"
proof -
  let ?st2 = "foldl cache_step st1 pre"
  obtain c where c: "c < 2 ^ 24"
    and i: "i = ((buffer_idx st + 1) AND mask 8) OR push_bit 8 c"
    and slot: "buffers st1 ((buffer_idx st + 1) AND mask 8)
                = \<lparr>buffer = Some b, cookie = c, timeout = now + OVERWRITE_SECS\<rparr>"
    using save_buffer_ok [OF assms(1,2)] by blast
  have s: "i AND PKT_BUFFER_MASK = (buffer_idx st + 1) AND mask 8"
    by (simp add: i PKT_BUFFER_MASK_mask id_slot)
  have dc: "drop_bit PKT_BUFFER_BITS i = c"
    unfolding i PKT_BUFFER_BITS_def by (rule id_cookie [OF c])
  have slot1: "buffers st1 (i AND PKT_BUFFER_MASK)
      = \<lparr>buffer = Some b, cookie = c, timeout = now + OVERWRITE_SECS\<rparr>"
    by (simp only: s slot)
  have d1: "drop_bit PKT_BUFFER_BITS i = cookie (buffers st1 (i AND PKT_BUFFER_MASK))"
    using dc slot1 by simp
  have slot2: "buffers ?st2 (i AND PKT_BUFFER_MASK)
      = \<lparr>buffer = Some b, cookie = c, timeout = now + OVERWRITE_SECS\<rparr>"
    using cache_run_keeps_slot [OF d1 assms(3,4,5)] slot1 by simp
  have d: "drop_bit PKT_BUFFER_BITS i = cookie (buffers ?st2 (i AND PKT_BUFFER_MASK))"
    using dc slot2 by simp
  have r1: "snd (retrieve_buffer ?st2 i) = Some b"
    using retrieve_buffer_hit(1) [OF refl d] by (simp add: slot2)
  have e: "buffer (buffers (fst (retrieve_buffer ?st2 i)) (i AND PKT_BUFFER_MASK)) = None"
    using retrieve_buffer_hit(2) [OF refl d] .
  have r2: "snd (retrieve_buffer (fst (retrieve_buffer ?st2 i)) i) = None"
    using retrieve_buffer_empty [OF e] .
  have r3: "snd (retrieve_buffer (foldl cache_step (fst (retrieve_buffer ?st2 i)) ops) i) = None"
    if "no_save_to (i AND PKT_BUFFER_MASK) (fst (retrieve_buffer ?st2 i)) ops"
    using retrieve_buffer_empty [OF cache_run_keeps_empty [OF e that]] .
  have k: "retrieve_skb = (retrieve_buffer :: 'a buffer_cache \<Rightarrow> _)"
    by (intro ext) (simp add: retrieve_skb_def retrieve_buffer_def)
  show ?thesis using r1 e r2 r3 by (simp add: k)
qed

theorem buffer_retrieved_once_witness:
  "save_buffer 100 buffer_cache_init [1, 2, 3 :: u8]
     = (fst (save_buffer 100 buffer_cache_init [1, 2, 3 :: u8]), 257)
   \<and> snd (retrieve_buffer (foldl cache_step
         (fst (save_buffer 100 buffer_cache_init [1, 2, 3 :: u8]))
         [Save 100 [7], Retrieve 513, Discard 1, Retrieve 258]) 257)
       = Some [1, 2, 3]
   \<and> snd (retrieve_buffer (fst (retrieve_buffer (foldl cache_step
         (fst (save_buffer 100 buffer_cache_init [1, 2, 3 :: u8]))
         [Save 100 [7], Retrieve 513, Discard 1, Retrieve 258]) 257)) 257) = None
   \<and> snd (retrieve_buffer (foldl cache_step (fst (retrieve_buffer (foldl cache_step
         (fst (save_buffer 100 buffer_cache_init [1, 2, 3 :: u8]))
         [Save 100 [7], Retrieve 513, Discard 1, Retrieve 258]) 257))
         [Save 100 [9], Discard 257, Retrieve 259]) 257) = None"
proof -
  let ?st1 = "fst (save_buffer 100 buffer_cache_init [1, 2, 3 :: u8])"
  let ?pre = "[Save 100 [7 :: u8], Retrieve 513, Discard 1, Retrieve 258]"
  let ?ops = "[Save 100 [9 :: u8], Discard 257, Retrieve 259]"
  have sv: "save_buffer 100 buffer_cache_init [1, 2, 3 :: u8] = (?st1, 257)"
    by (simp add: save_buffer_def buffer_cache_init_def Let_def PKT_BUFFER_MASK_def
        N_PKT_BUFFERS_def PKT_BUFFER_BITS_def PKT_COOKIE_BITS_def UINT32_MAX_def
        word_le_nat_alt)
  have ne: "(257 :: u32) \<noteq> UINT32_MAX"
    by (simp add: UINT32_MAX_def)
  have np: "no_save_to (257 AND PKT_BUFFER_MASK) ?st1 ?pre"
    by (simp add: save_buffer_def retrieve_buffer_def discard_buffer_def buffer_cache_init_def
        Let_def PKT_BUFFER_MASK_def N_PKT_BUFFERS_def PKT_BUFFER_BITS_def PKT_COOKIE_BITS_def
        word_le_nat_alt)
  have nr: "Retrieve 257 \<notin> set ?pre" "Discard 257 \<notin> set ?pre"
    by simp_all
  have ns: "no_save_to (257 AND PKT_BUFFER_MASK)
      (fst (retrieve_buffer (foldl cache_step ?st1 ?pre) 257)) ?ops"
    by (simp add: save_buffer_def retrieve_buffer_def discard_buffer_def buffer_cache_init_def
        Let_def PKT_BUFFER_MASK_def N_PKT_BUFFERS_def PKT_BUFFER_BITS_def PKT_COOKIE_BITS_def
        word_le_nat_alt)
  show ?thesis
    using buffer_retrieved_once [OF sv ne np nr, of ?ops] sv ns
    by simp
qed

text \<open>
  The slot is reused before the first retrieve: a packet is saved at time 100 and gets the id
  257 (slot 1, cookie 1); 255 more saves in that second fill the ring, and a save at time 101
  advances to slot 1 again, finds its entry old enough and overwrites it under cookie 2.  The
  first retrieve with the id 257 then returns nothing.
\<close>

theorem slot_reused_counterexample:
  "snd (save_buffer 100 buffer_cache_init [1, 2, 3 :: u8]) = 257
   \<and> Retrieve 257 \<notin> set (replicate 255 (Save 100 [1, 2, 3 :: u8]) @ [Save 101 [9]])
   \<and> snd (retrieve_buffer
        (foldl cache_step (fst (save_buffer 100 buffer_cache_init [1, 2, 3 :: u8]))
           (replicate 255 (Save 100 [1, 2, 3]) @ [Save 101 [9]])) 257) = None"
proof -
  let ?p = "[1, 2, 3 :: u8]"
  have sv: "snd (save_buffer 100 buffer_cache_init ?p) = 257"
    by (simp add: save_buffer_def buffer_cache_init_def Let_def PKT_BUFFER_MASK_def
        N_PKT_BUFFERS_def PKT_BUFFER_BITS_def PKT_COOKIE_BITS_def word_le_nat_alt)
  have one: "fst (save_buffer 100 buffer_cache_init ?p) = saves 100 ?p 1"
    by (simp add: saves_def)
  have full: "foldl cache_step (saves 100 ?p 1) (replicate 255 (Save 100 ?p)) = saves 100 ?p 256"
    using saves_add [of 100 ?p 1 255] by simp
  have c: "\<not> (push_bit PKT_COOKIE_BITS 1 - 1 \<le> (2 :: u32))"
    by (simp add: PKT_COOKIE_BITS_def PKT_BUFFER_BITS_def word_le_nat_alt)
  have slot: "buffers (fst (save_buffer 101 (saves 100 ?p 256) [9])) 1
      = \<lparr>buffer = Some [9], cookie = 2, timeout = 101 + OVERWRITE_SECS\<rparr>"
    using saves_256 [of 100 ?p] c
    by (simp add: save_buffer_def Let_def PKT_BUFFER_MASK_def N_PKT_BUFFERS_def
        PKT_BUFFER_BITS_def OVERWRITE_SECS_def)
  have r: "snd (retrieve_buffer (fst (save_buffer 101 (saves 100 ?p 256) [9])) 257) = None"
    by (simp add: retrieve_buffer_def Let_def slot PKT_BUFFER_MASK_def N_PKT_BUFFERS_def
        PKT_BUFFER_BITS_def)
  have n: "Retrieve 257 \<notin> set (replicate 255 (Save 100 ?p) @ [Save 101 [9]])"
    by auto
  have w: "foldl cache_step (fst (save_buffer 100 buffer_cache_init ?p))
        (replicate 255 (Save 100 ?p) @ [Save 101 [9]])
      = fst (save_buffer 101 (saves 100 ?p 256) [9])"
    unfolding one foldl_append full by simp
  show ?thesis
    unfolding w using sv n r by simp
qed

section \<open>Results about the incremental checksum update\<close>

lemma host16_small:
  fixes c d :: u16
  assumes "c < 256" and "d < 256" and "c \<noteq> d"
  shows "host16 h d \<noteq> c"
proof (cases h)
  case Big_endian
  then show ?thesis using assms(3) by (simp add: host16_def)
next
  case Little_endian
  have z: "drop_bit 8 d = 0"
    using assms(2) by (simp add: drop_bit_eq_div word_less_nat_alt unat_div word_eq_iff_unsigned [where ?'a = nat])
  have e: "host16 h d = push_bit 8 d"
    using Little_endian by (simp add: host16_def z)
  show ?thesis
  proof
    assume a: "host16 h d = c"
    then have "push_bit 8 d = c" using e by simp
    then have "unat (push_bit 8 d) = unat c" by simp
    moreover have "unat (push_bit 8 d) = unat d * 256"
      using assms(2) by (simp add: push_bit_eq_mult unat_word_ariths word_less_nat_alt)
    ultimately have "unat d * 256 = unat c" by simp
    moreover have "unat c < 256" using assms(1) by (simp add: word_less_nat_alt)
    ultimately have "unat d = 0" by simp
    then have "d = 0" by (simp add: unat_eq_0)
    then have "c = 0" using \<open>push_bit 8 d = c\<close> by simp
    then show False using assms(3) \<open>d = 0\<close> by simp
  qed
qed

lemma host16_small_self:
  fixes c :: u16
  assumes "c < 256" and "c \<noteq> 0"
  shows "host16 Little_endian c \<noteq> c"
proof
  assume a: "host16 Little_endian c = c"
  have z: "drop_bit 8 c = 0"
    using assms(1) by (simp add: drop_bit_eq_div word_less_nat_alt unat_div word_eq_iff_unsigned [where ?'a = nat])
  have "push_bit 8 c = c"
    using a by (simp add: host16_def z)
  then have "unat (push_bit 8 c) = unat c" by simp
  moreover have "unat (push_bit 8 c) = unat c * 256"
    using assms(1) by (simp add: push_bit_eq_mult unat_word_ariths word_less_nat_alt)
  ultimately have "unat c = 0" by simp
  then show False using assms(2) by (simp add: unat_eq_0)
qed

text \<open>
  Which address \<open>modify_nh\<close> rewrites.  When the values of the two action types differ and
  are below 256, \<open>OFPAT_SET_NW_DST\<close> rewrites \<open>ip_dst\<close> on either host; the comparison
  of the unconverted type field makes \<open>OFPAT_SET_NW_SRC\<close> rewrite \<open>ip_dst\<close> as well on a
  little-endian host, where the bytes of the field read as another number.
\<close>

lemma set_nw_dst_not_to_src:
  assumes "AT_SET_NW_SRC T < 256" and "AT_SET_NW_DST T < 256"
    and "AT_SET_NW_SRC T \<noteq> AT_SET_NW_DST T"
  shows "host16 h (action_type T (OFPAT_SET_NW_DST v)) \<noteq> AT_SET_NW_SRC T"
  using host16_small [OF assms] by (simp add: action_type_def)

lemma set_nw_src_little_endian:
  assumes "AT_SET_NW_SRC T < 256" and "AT_SET_NW_SRC T \<noteq> 0"
  shows "host16 Little_endian (action_type T (OFPAT_SET_NW_SRC v)) \<noteq> AT_SET_NW_SRC T"
  using host16_small_self [OF assms] by (simp add: action_type_def)

text \<open>
  C8.  The incremental update does not always agree with the checksum computed from scratch.
  \<open>recalc_csum16\<close> folds the carry of its 32-bit sum once and truncates; when the sum is
  \<open>0x1FFFF\<close> the fold gives \<open>0x20000\<close>, whose low 16 bits are zero where the
  one's-complement sum is 1.  The example packet has a valid header checksum \<open>0x66E7\<close>.
  Rewriting its destination address from 10.0.0.2 to 113.231.102.234 with \<open>modify_nh\<close>
  leaves the checksum \<open>0x9818\<close> in the header on a big-endian host and \<open>0x9917\<close> on a
  little-endian host, while the checksum of the rewritten header computed from scratch is
  \<open>0x9817\<close>.  The sum \<open>0x1FFFF\<close> arises in the update for the low half of the address
  on the big-endian host (\<open>recalc_csum16(0x66E7, 0x0002, 0x66EA)\<close>), and in the update for
  the byte-swapped high half on the little-endian host
  (\<open>recalc_csum16(0xE766, 0x000A, 0xE771)\<close>); the value of RFC 1624 for both is
  \<open>0xFFFE\<close>, and the function returns \<open>0xFFFF\<close>.
\<close>

theorem modify_nh_csum_mismatch:
  "ip_csum_valid example_ip_header
   \<and> modify_nh Big_endian example_action_types \<lparr>l3 = example_ip_header, l4 = []\<rparr>
         ETH_TYPE_IP 1 (OFPAT_SET_NW_DST 0x71E766EA)
       = Some \<lparr>l3 = example_ip_header\<lparr>ip_csum := 0x9818, ip_dst := 0x71E766EA\<rparr>, l4 = []\<rparr>
   \<and> modify_nh Little_endian example_action_types \<lparr>l3 = example_ip_header, l4 = []\<rparr>
         ETH_TYPE_IP 1 (OFPAT_SET_NW_DST 0x71E766EA)
       = Some \<lparr>l3 = example_ip_header\<lparr>ip_csum := 0x9917, ip_dst := 0x71E766EA\<rparr>, l4 = []\<rparr>
   \<and> recompute_csum (ip_header_words (example_ip_header\<lparr>ip_csum := 0, ip_dst := 0x71E766EA\<rparr>))
       = 0x9817
   \<and> recalc_csum16 0x66E7 0x0002 0x66EA = 0xFFFF
   \<and> NOT (of_nat (ones_fold (unat (NOT (0x66E7 :: u16)) + unat (NOT (0x0002 :: u16))
              + unat (0x66EA :: u16)))) = (0xFFFE :: u16)
   \<and> recalc_csum16 0xE766 0x000A 0xE771 = 0xFFFF
   \<and> NOT (of_nat (ones_fold (unat (NOT (0xE766 :: u16)) + unat (NOT (0x000A :: u16))
              + unat (0xE771 :: u16)))) = (0xFFFE :: u16)"
proof -
  have v: "ip_csum_valid example_ip_header"
    by (simp add: ip_csum_valid_def example_ip_header_def ip_header_words_def recompute_csum_def)
  have mb: "modify_nh Big_endian example_action_types \<lparr>l3 = example_ip_header, l4 = []\<rparr>
         ETH_TYPE_IP 1 (OFPAT_SET_NW_DST 0x71E766EA)
       = Some \<lparr>l3 = example_ip_header\<lparr>ip_csum := 0x9818, ip_dst := 0x71E766EA\<rparr>, l4 = []\<rparr>"
    by (simp add: modify_nh_def example_ip_header_def example_action_types_def action_type_def
        host16_def host32_def ETH_TYPE_IP_def IP_TYPE_TCP_def IP_TYPE_UDP_def recalc_csum32_def
        recalc_csum16_def Let_def)
  have ml: "modify_nh Little_endian example_action_types \<lparr>l3 = example_ip_header, l4 = []\<rparr>
         ETH_TYPE_IP 1 (OFPAT_SET_NW_DST 0x71E766EA)
       = Some \<lparr>l3 = example_ip_header\<lparr>ip_csum := 0x9917, ip_dst := 0x71E766EA\<rparr>, l4 = []\<rparr>"
    by (simp add: modify_nh_def example_ip_header_def example_action_types_def action_type_def
        host16_def host32_def ETH_TYPE_IP_def IP_TYPE_TCP_def IP_TYPE_UDP_def recalc_csum32_def
        recalc_csum16_def Let_def)
  have r: "recompute_csum (ip_header_words (example_ip_header\<lparr>ip_csum := 0, ip_dst := 0x71E766EA\<rparr>))
       = 0x9817"
    by (simp add: example_ip_header_def ip_header_words_def recompute_csum_def)
  have c1: "recalc_csum16 0x66E7 0x0002 0x66EA = 0xFFFF"
    by (simp add: recalc_csum16_def Let_def)
  have e1: "NOT (of_nat (ones_fold (unat (NOT (0x66E7 :: u16)) + unat (NOT (0x0002 :: u16))
              + unat (0x66EA :: u16)))) = (0xFFFE :: u16)"
    by simp
  have c2: "recalc_csum16 0xE766 0x000A 0xE771 = 0xFFFF"
    by (simp add: recalc_csum16_def Let_def)
  have e2: "NOT (of_nat (ones_fold (unat (NOT (0xE766 :: u16)) + unat (NOT (0x000A :: u16))
              + unat (0xE771 :: u16)))) = (0xFFFE :: u16)"
    by simp
  show ?thesis using v mb ml r c1 e1 c2 e2 by simp
qed

section \<open>Results about the action interpreter\<close>





lemma is_clone_simps [simp]:
  "is_clone (Do_output c b i m p) = c" "is_clone (Buffer_delete b) = False"
  "is_clone Not_reached = False"
  by (simp_all add: is_clone_def)


lemma is_kclone_simps [simp]:
  "is_kclone (K_do_output c bo m p i) = c" "is_kclone (Kfree_skb b) = False"
  by (simp_all add: is_kclone_def)

lemma is_koutput_simps [simp]:
  "is_koutput (K_do_output c bo m p i) = True" "is_koutput (Kfree_skb b) = False"
  by (simp_all add: is_koutput_def)







lemma single_trailing_output_kernel_example:
  "fwd_execute_actions example_skb_ops [] example_key_a
      [OFPAT_SET_DL_SRC [0, 1, 2, 3, 4, 5], OFPAT_OUTPUT 2 0] False
    = [K_do_output False (Some [OFPAT_SET_DL_SRC [0, 1, 2, 3, 4, 5]]) 0 2 False]"
  by (simp add: fwd_execute_actions_def example_skb_ops_def is_output_def)












section \<open>Results about the header parser\<close>














section \<open>Results about the control-message dispatch\<close>

text \<open>
  C1 (as amended).  In \<open>fwd_control_input\<close> of the kernel datapath a message whose version
  differs from \<open>OFP_VERSION\<close> and whose type is none of HELLO, ERROR, ECHO\_REQUEST,
  ECHO\_REPLY and VENDOR is answered with BAD\_VERSION and \<open>-EINVAL\<close>, and no handler is
  called.  For the five exempt types the result does not depend on the version.  A handler is
  called only for a type that has an entry in the dispatch table, with the two length checks
  passed, and with a foreign version only for HELLO, ECHO\_REQUEST and ECHO\_REPLY, which are
  dispatched whenever the length checks pass.  ERROR and VENDOR have no entry: they are answered
  with BAD\_TYPE and \<open>-EINVAL\<close> (or with \<open>-EINVAL\<close> alone when the length field exceeds
  the bytes received), whatever their version.  The user-space switch has no exemption: it
  returns \<open>-EINVAL\<close> for every message of a foreign version.
\<close>

theorem version_check:
  "(oh_version oh \<noteq> v \<and> \<not> version_exempt (oh_type oh) \<longrightarrow>
      fwd_control_input v S oh len = (Some OFPBRC_BAD_VERSION, Inl EINVAL))
   \<and> (version_exempt (oh_type oh) \<longrightarrow>
      fwd_control_input v S oh len = fwd_control_input v S (oh\<lparr>oh_version := v\<rparr>) len)
   \<and> (\<forall>h. snd (fwd_control_input v S oh len) = Inr h \<longrightarrow>
      (\<exists>m. packets S (oh_type oh) = Some (m, h) \<and> m \<le> len)
      \<and> unat (oh_length oh) \<le> len
      \<and> (oh_version oh = v \<or> oh_type oh = OFPT_HELLO \<or> oh_type oh = OFPT_ECHO_REQUEST
           \<or> oh_type oh = OFPT_ECHO_REPLY))
   \<and> ((oh_type oh = OFPT_HELLO \<or> oh_type oh = OFPT_ECHO_REQUEST
         \<or> oh_type oh = OFPT_ECHO_REPLY)
        \<and> unat (oh_length oh) \<le> len \<and> sizeof_ofp_header S \<le> len \<longrightarrow>
      (\<exists>h. fwd_control_input v S oh len = (None, Inr h)))
   \<and> (oh_type oh = OFPT_ERROR \<or> oh_type oh = OFPT_VENDOR \<longrightarrow>
      fwd_control_input v S oh len =
        (if unat (oh_length oh) > len then (None, Inl EINVAL)
         else (Some OFPBRC_BAD_TYPE, Inl EINVAL)))
   \<and> (oh_version oh' \<noteq> v \<longrightarrow> switch_fwd_control_input v tbl oh' len = Inl EINVAL)"
  by (auto simp add: fwd_control_input_def switch_fwd_control_input_def version_exempt_def
      packets_def split: option.splits ofp_type.splits if_splits)

theorem version_check_witness:
  "fwd_control_input 0x83 example_sizes
      \<lparr>oh_version = 1, oh_type = OFPT_FLOW_MOD, oh_length = 72, oh_xid = 0\<rparr> 72
    = (Some OFPBRC_BAD_VERSION, Inl EINVAL)
   \<and> fwd_control_input 0x83 example_sizes
      \<lparr>oh_version = 1, oh_type = OFPT_HELLO, oh_length = 8, oh_xid = 0\<rparr> 8
    = (None, Inr recv_hello)
   \<and> fwd_control_input 0x83 example_sizes
      \<lparr>oh_version = 0x83, oh_type = OFPT_HELLO, oh_length = 8, oh_xid = 0\<rparr> 8
    = (None, Inr recv_hello)
   \<and> fwd_control_input 0x83 example_sizes
      \<lparr>oh_version = 1, oh_type = OFPT_VENDOR, oh_length = 9, oh_xid = 0\<rparr> 8
    = (None, Inl EINVAL)"
  using version_check [where oh = "\<lparr>oh_version = 1, oh_type = OFPT_FLOW_MOD, oh_length = 72,
      oh_xid = 0\<rparr>" and v = "0x83" and S = example_sizes and len = 72]
    version_check [where oh = "\<lparr>oh_version = 1, oh_type = OFPT_HELLO, oh_length = 8,
      oh_xid = 0\<rparr>" and v = "0x83" and S = example_sizes and len = 8]
  by (simp add: version_exempt_def fwd_control_input_def packets_def example_sizes_def)

text \<open>
  A VENDOR message of version 1 whose length field agrees with the 8 bytes received passes
  the version check and is then rejected: no handler is called, and the reply is BAD\_TYPE.
\<close>

theorem vendor_not_dispatched_counterexample:
  "fwd_control_input 0x83 example_sizes
      \<lparr>oh_version = 1, oh_type = OFPT_VENDOR, oh_length = 8, oh_xid = 0\<rparr> 8
    = (Some OFPBRC_BAD_TYPE, Inl EINVAL)"
  by (simp add: fwd_control_input_def packets_def)

section \<open>Results about FLOW\_MOD(ADD)\<close>

text \<open>
  C2 (as amended).  In the kernel datapath, \<open>add_flow\<close> rejects a FLOW\_MOD(ADD) whose
  action list contains an OUTPUT to \<open>OFPP_TABLE\<close>, to \<open>OFPP_NONE\<close> or to the
  \<open>in_port\<close> of its match: it returns \<open>-ENOMEM\<close>, leaves the chain as it was, runs no
  action, and discards the buffer the message names, if it names one.  The \<open>add_flow\<close> of
  the user-space switch makes no such test.
\<close>

theorem looping_output_rejected:
  assumes "list_ex (loops_back ofm) (ofm_actions ofm)"
  shows "fwd_add_flow E ch st ofm =
    Some \<lparr>af_ret = Some ENOMEM, af_chain = ch,
          af_cache = (if ofm_buffer_id ofm \<noteq> - 1 then discard_skb st (ofm_buffer_id ofm)
                      else st),
          af_used = None, af_trace = []\<rparr>"
  using assms by (simp add: fwd_add_flow_def Let_def)

theorem looping_output_rejected_witness:
  "list_ex (loops_back looping_flow_mod) (ofm_actions looping_flow_mod)
   \<and> fwd_add_flow example_kernel_env [] buffer_cache_init looping_flow_mod =
      Some \<lparr>af_ret = Some ENOMEM, af_chain = [], af_cache = buffer_cache_init,
            af_used = None, af_trace = []\<rparr>"
proof -
  have h: "list_ex (loops_back looping_flow_mod) (ofm_actions looping_flow_mod)"
    by (simp add: looping_flow_mod_def loops_back_def is_output_def)
  show ?thesis
    using looping_output_rejected [OF h, of example_kernel_env "[]" buffer_cache_init] h
    by (simp add: looping_flow_mod_def)
qed

text \<open>
  The user-space \<open>add_flow\<close> on the same message, with a linear table that holds one
  entry: the flow with the action OUTPUT(TABLE) is inserted and the function returns 0.
\<close>

theorem add_flow_loop_counterexample:
  "list_ex (loops_back looping_flow_mod) (ofm_actions looping_flow_mod)
   \<and> add_flow example_switch_env example_datapath buffer_cache_init looping_flow_mod =
      Some \<lparr>af_ret = None,
            af_chain = [[example_sw_flow,
               \<lparr>sf_key = example_exact_key, sf_group_id = 0, sf_max_idle = 60, sf_created = 200,
                sf_timeout = 260, sf_used = 100, sf_idle_timeout = 5, sf_hard_timeout = 0,
                sf_packet_count = 0, sf_byte_count = 0,
                sf_actions = [OFPAT_OUTPUT OFPP_TABLE 0]\<rparr>]],
            af_cache = buffer_cache_init, af_used = None, af_trace = []\<rparr>"
proof -
  have h: "list_ex (loops_back looping_flow_mod) (ofm_actions looping_flow_mod)"
    by (simp add: looping_flow_mod_def loops_back_def is_output_def)
  have k: "flow_extract_match example_wildcards example_wildcard_fields
             \<lparr>om_wildcards = 0, om_flow = example_flow\<rparr> = example_exact_key"
    by (simp add: flow_extract_match_def make_nw_mask_def example_wildcards_def
        example_wildcard_fields_def example_flow_def example_exact_key_def Let_def
        ETH_TYPE_IP_def IP_TYPE_TCP_def IP_TYPE_UDP_def)
  have a: "add_flow example_switch_env example_datapath buffer_cache_init looping_flow_mod =
      Some \<lparr>af_ret = None,
            af_chain = [[example_sw_flow,
               \<lparr>sf_key = example_exact_key, sf_group_id = 0, sf_max_idle = 60, sf_created = 200,
                sf_timeout = 260, sf_used = 100, sf_idle_timeout = 5, sf_hard_timeout = 0,
                sf_packet_count = 0, sf_byte_count = 0,
                sf_actions = [OFPAT_OUTPUT OFPP_TABLE 0]\<rparr>]],
            af_cache = buffer_cache_init, af_used = None, af_trace = []\<rparr>"
    by (simp add: add_flow_def Let_def looping_flow_mod_def example_switch_env_def
        example_datapath_def table_linear_ops_def MAX_ACTIONS_def UINT32_MAX_def k
        example_sw_flow_def)
  show ?thesis using h a by simp
qed

section \<open>Results about the timeout sweep\<close>

lemma loop_result:
  "table_hash_timeout_loop E dp bs =
    (map (\<lambda>b. case b of None \<Rightarrow> None
               | Some fl \<Rightarrow>
                   if kernel_flow_timeout (sw_reason_code E) (sw_HZ E) (sw_jiffies E) fl \<noteq> 0
                      \<and> sw_flow_del E fl
                   then None else Some fl) bs,
     int (length [fl. Some fl \<leftarrow> bs,
            kernel_flow_timeout (sw_reason_code E) (sw_HZ E) (sw_jiffies E) fl \<noteq> 0
            \<and> sw_flow_del E fl]),
     (if hello_flags dp AND sw_send_flow_exp E \<noteq> 0
      then map Flow_expired [fl. Some fl \<leftarrow> bs,
             kernel_flow_timeout (sw_reason_code E) (sw_HZ E) (sw_jiffies E) fl \<noteq> 0]
      else []))"
  by (induction bs) (auto simp add: do_delete_def split: option.splits)

lemma reaped_alt:
  "reaped E th =
    [fl. Some fl \<leftarrow> take (bucket_mask th + 1) (buckets th),
         kernel_flow_timeout (sw_reason_code E) (sw_HZ E) (sw_jiffies E) fl \<noteq> 0
         \<and> sw_flow_del E fl]"
proof -
  have "filter P (concat (map (\<lambda>b. case b of None \<Rightarrow> [] | Some fl \<Rightarrow> if Q fl then [fl] else []) bs))
      = concat (map (\<lambda>b. case b of None \<Rightarrow> [] | Some fl \<Rightarrow> if Q fl \<and> P fl then [fl] else []) bs)"
    for P Q :: "k_sw_flow \<Rightarrow> bool" and bs
    by (induction bs) (auto split: option.splits)
  then show ?thesis
    by (simp add: reaped_def swept_def)
qed

text \<open>
  The sweep tests the reason for being nonzero, so what it takes for "timed out" depends on
  the values of the reasons: a flow with no timeout at all gets \<open>-1\<close> and is swept.
\<close>

lemma kernel_flow_timeout_permanent:
  assumes "kf_idle_timeout fl = OFP_FLOW_PERMANENT" and "kf_hard_timeout fl = OFP_FLOW_PERMANENT"
  shows "kernel_flow_timeout code HZ jiffies fl = - 1"
  using assms by (simp add: kernel_flow_timeout_def)

text \<open>
  C3 (as amended).  In the kernel datapath, for every flow that \<open>table_hash_timeout\<close>
  reaps, a FLOW\_EXPIRED message is sent if and only if the flag
  \<open>OFP_CHELLO_SEND_FLOW_EXP\<close> is set in the \<open>hello_flags\<close> of the datapath.  The sweep
  empties the buckets of the flows it reaps, subtracts their number from \<open>n_flows\<close> and
  returns it; with the flag set it sends one message for every flow it has swept, in the
  order of the buckets, and with the flag clear it sends nothing.  In the user-space switch,
  the sweep of \<open>dp_run\<close> sends one FLOW\_EXPIRED for every flow the chain has reaped,
  whatever the flags of the switch configuration.
\<close>

theorem flow_expired_iff_flag:
  "(\<forall>fl \<in> set (reaped E th).
      (Flow_expired fl \<in> set (snd (snd (table_hash_timeout E kdp th))))
        = (hello_flags kdp AND sw_send_flow_exp E \<noteq> 0))
   \<and> fst (snd (table_hash_timeout E kdp th)) = int (length (reaped E th))
   \<and> n_flows (fst (table_hash_timeout E kdp th)) = n_flows th - int (length (reaped E th))
   \<and> take (bucket_mask th + 1) (buckets (fst (table_hash_timeout E kdp th)))
       = map (\<lambda>b. case b of None \<Rightarrow> None
                   | Some fl \<Rightarrow> if fl \<in> set (reaped E th) then None else Some fl)
           (take (bucket_mask th + 1) (buckets th))
   \<and> snd (snd (table_hash_timeout E kdp th))
       = (if hello_flags kdp AND sw_send_flow_exp E \<noteq> 0 then map Flow_expired (swept E th)
          else [])
   \<and> (hello_flags kdp AND sw_send_flow_exp E = 0 \<longrightarrow>
        snd (snd (table_hash_timeout E kdp th)) = [])
   \<and> (now \<noteq> last_timeout dp \<longrightarrow>
        snd (dp_run_timeout ops now dp)
          = map (send_flow_expired dp) (snd (chain_timeout ops (chain dp) [])))"
proof -
  let ?bs = "take (bucket_mask th + 1) (buckets th)"
  let ?to = "\<lambda>fl. kernel_flow_timeout (sw_reason_code E) (sw_HZ E) (sw_jiffies E) fl \<noteq> 0"
  have r: "table_hash_timeout E kdp th =
      (th\<lparr>buckets := map (\<lambda>b. case b of None \<Rightarrow> None
                 | Some fl \<Rightarrow> if ?to fl \<and> sw_flow_del E fl then None else Some fl) ?bs
               @ drop (bucket_mask th + 1) (buckets th),
          n_flows := n_flows th - int (length (reaped E th))\<rparr>,
       int (length (reaped E th)),
       (if hello_flags kdp AND sw_send_flow_exp E \<noteq> 0 then map Flow_expired (swept E th)
        else []))"
    by (simp add: table_hash_timeout_def loop_result reaped_alt swept_def Let_def)
  have m: "set (reaped E th) \<subseteq> set (swept E th)"
    by (auto simp add: reaped_def)
  have inj: "(Flow_expired fl \<in> Flow_expired ` A) = (fl \<in> A)" for fl A
    by auto
  have c1: "\<forall>fl \<in> set (reaped E th).
      (Flow_expired fl \<in> set (snd (snd (table_hash_timeout E kdp th))))
        = (hello_flags kdp AND sw_send_flow_exp E \<noteq> 0)"
    using m by (auto simp add: r)
  have l: "length (map (\<lambda>b. case b of None \<Rightarrow> None
                 | Some fl \<Rightarrow> if ?to fl \<and> sw_flow_del E fl then None else Some fl) ?bs)
      = min (length (buckets th)) (bucket_mask th + 1)"
    by simp
  have mem: "(fl \<in> set (reaped E th)) = (?to fl \<and> sw_flow_del E fl)" if "Some fl \<in> set ?bs" for fl
    using that by (auto simp add: reaped_alt)
  have c4: "take (bucket_mask th + 1) (buckets (fst (table_hash_timeout E kdp th)))
       = map (\<lambda>b. case b of None \<Rightarrow> None
                   | Some fl \<Rightarrow> if fl \<in> set (reaped E th) then None else Some fl) ?bs"
  proof -
    have "take (bucket_mask th + 1) (buckets (fst (table_hash_timeout E kdp th)))
        = map (\<lambda>b. case b of None \<Rightarrow> None
                 | Some fl \<Rightarrow> if ?to fl \<and> sw_flow_del E fl then None else Some fl) ?bs"
      by (simp add: r min_def)
    also have "\<dots> = map (\<lambda>b. case b of None \<Rightarrow> None
                   | Some fl \<Rightarrow> if fl \<in> set (reaped E th) then None else Some fl) ?bs"
      by (rule map_cong) (auto simp add: mem split: option.splits)
    finally show ?thesis .
  qed
  have c7: "now \<noteq> last_timeout dp \<longrightarrow>
        snd (dp_run_timeout ops now dp)
          = map (send_flow_expired dp) (snd (chain_timeout ops (chain dp) []))"
    by (simp add: dp_run_timeout_def Let_def split: prod.splits)
  show ?thesis
    using c1 c4 c7 by (simp add: r)
qed

theorem flow_expired_iff_flag_witness:
  "kernel_flow_timeout example_reason_code 100 1000 example_k_flow = 1
   \<and> reaped example_sweep_env example_table_hash = [example_k_flow]
   \<and> table_hash_timeout example_sweep_env \<lparr>hello_flags = 1\<rparr> example_table_hash
      = (\<lparr>n_flows = 0, bucket_mask = 1, buckets = [None, None]\<rparr>, 1,
         [Flow_expired example_k_flow])
   \<and> table_hash_timeout example_sweep_env \<lparr>hello_flags = 0\<rparr> example_table_hash
      = (\<lparr>n_flows = 0, bucket_mask = 1, buckets = [None, None]\<rparr>, 1, [])"
proof -
  have t: "kernel_flow_timeout example_reason_code 100 1000 example_k_flow = 1"
    by (simp add: kernel_flow_timeout_def example_k_flow_def OFP_FLOW_PERMANENT_def
        time_after_def example_reason_code_def)
  have e: "sw_reason_code example_sweep_env = example_reason_code"
    "sw_HZ example_sweep_env = 100" "sw_jiffies example_sweep_env = 1000"
    "sw_flow_del example_sweep_env = example_flow_del" "sw_send_flow_exp example_sweep_env = 1"
    by (simp_all add: example_sweep_env_def)
  have r: "reaped example_sweep_env example_table_hash = [example_k_flow]"
    by (simp add: reaped_def swept_def example_table_hash_def e t example_flow_del_def)
  have a: "table_hash_timeout example_sweep_env \<lparr>hello_flags = 1\<rparr> example_table_hash
      = (\<lparr>n_flows = 0, bucket_mask = 1, buckets = [None, None]\<rparr>, 1,
         [Flow_expired example_k_flow])"
    by (simp add: table_hash_timeout_def example_table_hash_def e t example_flow_del_def
        do_delete_def Let_def)
  have b: "table_hash_timeout example_sweep_env \<lparr>hello_flags = 0\<rparr> example_table_hash
      = (\<lparr>n_flows = 0, bucket_mask = 1, buckets = [None, None]\<rparr>, 1, [])"
    by (simp add: table_hash_timeout_def example_table_hash_def e t example_flow_del_def
        do_delete_def Let_def)
  show ?thesis
    using flow_expired_iff_flag [of example_sweep_env example_table_hash "\<lparr>hello_flags = 1\<rparr>"]
      t r a b
    by simp
qed

text \<open>
  The user-space sweep at time 200 over a linear table whose one entry was last used at time
  100 with an idle timeout of 5, with all flags of the switch configuration clear: the entry
  is removed and a FLOW\_EXPIRED is sent for it.
\<close>

theorem dp_run_flow_expired_counterexample:
  "flags (config example_datapath) = 0
   \<and> dp_run_timeout (table_linear_ops example_wildcards 100 200) 200 example_datapath =
      (\<lparr>last_timeout = 200, chain = [[]], config = \<lparr>flags = 0, miss_send_len = 16\<rparr>\<rparr>,
       [\<lparr>ofe_match = \<lparr>om_wildcards = 0, om_flow = example_flow\<rparr>, ofe_duration = 0,
         ofe_packet_count = 3, ofe_byte_count = 180\<rparr>])"
proof -
  have t: "flow_timeout 200 example_sw_flow = Some OFPER_IDLE_TIMEOUT"
    by (simp add: flow_timeout_def example_sw_flow_def OFP_FLOW_PERMANENT_def)
  have m: "send_flow_expired example_datapath example_sw_flow =
      \<lparr>ofe_match = \<lparr>om_wildcards = 0, om_flow = example_flow\<rparr>, ofe_duration = 0,
       ofe_packet_count = 3, ofe_byte_count = 180\<rparr>"
    by (simp add: send_flow_expired_def flow_fill_match_def example_sw_flow_def
        example_exact_key_def)
  have c: "chain example_datapath = [[example_sw_flow]]"
    "last_timeout example_datapath = 199"
    "flags (config example_datapath) = 0"
    by (simp_all add: example_datapath_def)
  have d: "dp_run_timeout (table_linear_ops example_wildcards 100 200) 200 example_datapath =
      (example_datapath\<lparr>chain := [[]], last_timeout := 200\<rparr>,
       [send_flow_expired example_datapath example_sw_flow])"
    by (simp add: dp_run_timeout_def c table_linear_ops_def t Let_def)
  show ?thesis
    unfolding d m using c(3) by (simp add: example_datapath_def)
qed

section \<open>Results about PACKET\_IN\<close>

lemma flow_extract_frag_frame:
  "flow_extract frag_frame 1 =
      Some \<lparr>in_port = 1, dl_vlan = 0xffff, dl_src = [0, 1, 2, 3, 4, 5],
            dl_dst = [0, 1, 2, 3, 4, 6], dl_type = 0x0800, nw_src = 0x0A000001,
            nw_dst = 0x0A000002, nw_proto = 17, tp_src = 0x1234, tp_dst = 0x5678\<rparr>"
  by (simp add: flow_extract_def strip_llc_def strip_vlan_def extract_l3_def frag_frame_def
      Let_def be16_def be32_def ETH_HEADER_LEN_def SNAP_HDR_LEN_def LLC_HEADER_LEN_def
      VLAN_HEADER_LEN_def IP_HEADER_LEN_def UDP_HEADER_LEN_def ARP_ETH_HEADER_LEN_def
      OFP_DL_TYPE_ETH2_CUTOFF_def ETH_TYPE_VLAN_def ETH_TYPE_IP_def ETH_TYPE_ARP_def
      IP_TYPE_TCP_def IP_TYPE_UDP_def OFP_VLAN_NONE_def word_le_nat_alt word_less_nat_alt)

lemma chain_lookup_frag_frame:
  "chain_lookup (table_linear_ops example_wildcards 100 now) (chain example_datapath)
      \<lparr>flow = \<lparr>in_port = 1, dl_vlan = 0xffff, dl_src = [0, 1, 2, 3, 4, 5],
            dl_dst = [0, 1, 2, 3, 4, 6], dl_type = 0x0800, nw_src = 0x0A000001,
            nw_dst = 0x0A000002, nw_proto = 17, tp_src = 0x1234, tp_dst = 0x5678\<rparr>,
       wildcards = 0, nw_src_mask = 0, nw_dst_mask = 0\<rparr> = None"
  by (simp add: example_datapath_def table_linear_ops_def flow_matches_1wild_def
      flow_fields_match_def example_sw_flow_def example_exact_key_def example_flow_def
      example_wildcards_def)

text \<open>
  C5 (as amended).  When \<open>fwd_port_input\<close> of the user-space switch finds no flow for a
  frame, it sends one PACKET\_IN with reason \<open>OFPR_NO_MATCH\<close>, the ingress port, the
  length of the whole frame as \<open>total_len\<close> (its low 16 bits) and the buffer id that
  \<open>save_buffer\<close> returned.  If the frame was buffered, the payload is the first
  \<open>miss_send_len\<close> bytes of the frame; if \<open>save_buffer\<close> failed (buffer id
  \<open>0xFFFFFFFF\<close>), the payload is the whole frame, however long.
\<close>

theorem miss_packet_in:
  assumes "flow_extract frame (of_int inp) = Some f"
    and "chain_lookup ops (chain dp)
           \<lparr>flow = f, wildcards = 0, nw_src_mask = 0, nw_dst_mask = 0\<rparr> = None"
  shows "\<exists>st' opi.
       fwd_port_input ops rw now dp st frame inp = Some (st', Sent_to_controller opi)
     \<and> opi_reason opi = OFPR_NO_MATCH
     \<and> opi_in_port opi = of_int inp
     \<and> opi_total_len opi = of_nat (length frame)
     \<and> (length frame < 65536 \<longrightarrow> unat (opi_total_len opi) = length frame)
     \<and> (st', opi_buffer_id opi) = save_buffer now st frame
     \<and> (opi_buffer_id opi \<noteq> UINT32_MAX \<longrightarrow>
           opi_data opi = take (unat (miss_send_len (config dp))) frame
           \<and> length (opi_data opi) \<le> unat (miss_send_len (config dp)))
     \<and> (opi_buffer_id opi = UINT32_MAX \<longrightarrow> opi_data opi = frame)"
proof -
  obtain st' i where sv: "save_buffer now st frame = (st', i)"
    by (cases "save_buffer now st frame")
  have u: "length frame < 65536 \<Longrightarrow> unat (of_nat (length frame) :: u16) = length frame"
    by (simp add: unat_of_nat)
  show ?thesis
    using assms sv u
    by (auto simp add: fwd_port_input_def dp_output_control_def Let_def)
qed

theorem miss_packet_in_witness:
  "flow_extract frag_frame (of_int 1) =
      Some \<lparr>in_port = 1, dl_vlan = 0xffff, dl_src = [0, 1, 2, 3, 4, 5],
            dl_dst = [0, 1, 2, 3, 4, 6], dl_type = 0x0800, nw_src = 0x0A000001,
            nw_dst = 0x0A000002, nw_proto = 17, tp_src = 0x1234, tp_dst = 0x5678\<rparr>
   \<and> map_option snd (fwd_port_input (table_linear_ops example_wildcards 100 200) no_rewrite
        200 example_datapath buffer_cache_init frag_frame 1) =
      Some (Sent_to_controller
        \<lparr>opi_buffer_id = 0x101, opi_total_len = 60, opi_in_port = 1,
         opi_reason = OFPR_NO_MATCH, opi_data = take 16 frag_frame\<rparr>)"
proof -
  have f: "flow_extract frag_frame (of_int 1) =
      Some \<lparr>in_port = 1, dl_vlan = 0xffff, dl_src = [0, 1, 2, 3, 4, 5],
            dl_dst = [0, 1, 2, 3, 4, 6], dl_type = 0x0800, nw_src = 0x0A000001,
            nw_dst = 0x0A000002, nw_proto = 17, tp_src = 0x1234, tp_dst = 0x5678\<rparr>"
    using flow_extract_frag_frame by simp
  have s: "snd (save_buffer 200 buffer_cache_init frag_frame) = 0x101"
    by (simp add: save_buffer_def buffer_cache_init_def Let_def PKT_BUFFER_MASK_def
        N_PKT_BUFFERS_def PKT_BUFFER_BITS_def PKT_COOKIE_BITS_def word_le_nat_alt)
  have l: "length frag_frame = 60"
    by (simp add: frag_frame_def)
  have m: "unat (miss_send_len (config example_datapath)) = 16"
    by (simp add: example_datapath_def)
  obtain st' opi where r:
      "fwd_port_input (table_linear_ops example_wildcards 100 200) no_rewrite 200
         example_datapath buffer_cache_init frag_frame 1 = Some (st', Sent_to_controller opi)"
      "opi_reason opi = OFPR_NO_MATCH" "opi_in_port opi = of_int 1"
      "opi_total_len opi = of_nat (length frag_frame)"
      "(st', opi_buffer_id opi) = save_buffer 200 buffer_cache_init frag_frame"
      "opi_buffer_id opi \<noteq> UINT32_MAX \<longrightarrow>
           opi_data opi = take (unat (miss_send_len (config example_datapath))) frag_frame"
    using miss_packet_in [OF f chain_lookup_frag_frame, of 200 no_rewrite 200 buffer_cache_init]
    by blast
  have i: "opi_buffer_id opi = 0x101"
    using r(5) s by (metis snd_conv)
  have "opi = \<lparr>opi_buffer_id = 0x101, opi_total_len = 60, opi_in_port = 1,
         opi_reason = OFPR_NO_MATCH, opi_data = take 16 frag_frame\<rparr>"
    using r(2,3,4,6) i l m by (cases opi) (simp add: UINT32_MAX_def)
  then show ?thesis
    using f r(1) by simp
qed

text \<open>
  The 257th frame of one second, with \<open>miss_send_len = 16\<close>: the 256 slots of the cache
  are taken, \<open>save_buffer\<close> fails, and the PACKET\_IN carries all 60 bytes of the frame.
\<close>

theorem miss_not_truncated_counterexample:
  "fwd_port_input (table_linear_ops example_wildcards 100 100) no_rewrite 100 example_datapath
      (saves 100 frag_frame 256) frag_frame 1
    = Some ((saves 100 frag_frame 256)\<lparr>buffer_idx := 1\<rparr>,
            Sent_to_controller
              \<lparr>opi_buffer_id = 0xFFFFFFFF, opi_total_len = 60, opi_in_port = 1,
               opi_reason = OFPR_NO_MATCH, opi_data = frag_frame\<rparr>)
   \<and> length frag_frame = 60
   \<and> unat (miss_send_len (config example_datapath)) = 16"
proof -
  have l: "length frag_frame = 60"
    by (simp add: frag_frame_def)
  have m: "unat (miss_send_len (config example_datapath)) = 16"
    by (simp add: example_datapath_def)
  have a: "fwd_port_input (table_linear_ops example_wildcards 100 100) no_rewrite 100
      example_datapath (saves 100 frag_frame 256) frag_frame 1
    = Some ((saves 100 frag_frame 256)\<lparr>buffer_idx := 1\<rparr>,
            Sent_to_controller
              \<lparr>opi_buffer_id = 0xFFFFFFFF, opi_total_len = 60, opi_in_port = 1,
               opi_reason = OFPR_NO_MATCH, opi_data = frag_frame\<rparr>)"
    by (simp add: fwd_port_input_def dp_output_control_def Let_def flow_extract_frag_frame
        chain_lookup_frag_frame save_buffer_after_256 UINT32_MAX_def l)
  show ?thesis
    using a l m by simp
qed

end
